theory Spec2Isabelle
  imports Main "HOL-Library.Sublist"
begin

section \<open>Python values and the outside world\<close>

text \<open>
  The two scripts \<^verbatim>\<open>check_ocr.py\<close> and \<^verbatim>\<open>ocr.py\<close> are embedded as HOL functions.
  File names, command-line arguments and printed messages are values of type
  \<^typ>\<open>string\<close>; a character stands for the code point of the same number (Latin-1).
  The text extracted from a page is kept as the list of its Unicode code points, which
  is what Python's \<^verbatim>\<open>len\<close> counts.
\<close>

type_synonym page_text = "nat list"

text \<open>
  The exceptions the scripts distinguish. \<open>OtherException\<close> is any other subclass of
  \<^verbatim>\<open>Exception\<close> (a parse error of the PDF library, \<^verbatim>\<open>PermissionError\<close>, ...);
  \<open>KeyboardInterrupt\<close> is not a subclass of \<^verbatim>\<open>Exception\<close>. The last string of
  an exception is the text \<^verbatim>\<open>str(e)\<close>; \<open>CalledProcessError\<close> also carries the exit
  code and the captured standard error.
\<close>

datatype pyexn =
    FileNotFoundError string
  | CalledProcessError int string string
  | OtherException string
  | KeyboardInterrupt

fun exn_str :: "pyexn \<Rightarrow> string" where
  "exn_str (FileNotFoundError m) = m"
| "exn_str (CalledProcessError rc err m) = m"
| "exn_str (OtherException m) = m"
| "exn_str KeyboardInterrupt = []"

fun is_FileNotFoundError :: "pyexn \<Rightarrow> bool" where
  "is_FileNotFoundError (FileNotFoundError m) = True"
| "is_FileNotFoundError e = False"

fun is_CalledProcessError :: "pyexn \<Rightarrow> bool" where
  "is_CalledProcessError (CalledProcessError rc err m) = True"
| "is_CalledProcessError e = False"

fun is_Exception :: "pyexn \<Rightarrow> bool" where
  "is_Exception KeyboardInterrupt = False"
| "is_Exception e = True"

text \<open>
  What a run does to the outside world, in order: a line printed on standard output, a
  call of \<^verbatim>\<open>subprocess.run\<close> with its argument list, a call of \<^verbatim>\<open>os.makedirs\<close>, the
  creation of a \<^verbatim>\<open>multiprocessing.Pool\<close>. (The progress bar of \<^verbatim>\<open>tqdm\<close> goes to
  standard error and is left out.)
\<close>

datatype event =
    Print string
  | Run "string list"
  | Makedirs string
  | PoolCreate

fun is_Print :: "event \<Rightarrow> bool" where
  "is_Print (Print s) = True"
| "is_Print e = False"

text \<open>
  A call yields the events it caused and either its return value or the exception that
  left it.
\<close>

type_synonym 'a io = "event list \<times> (pyexn + 'a)"

definition return_io :: "'a \<Rightarrow> 'a io" where
  "return_io v = ([], Inr v)"

definition raise_io :: "pyexn \<Rightarrow> 'a io" where
  "raise_io e = ([], Inl e)"

definition emit :: "event list \<Rightarrow> unit io" where
  "emit evs = (evs, Inr ())"

definition bind_io :: "'a io \<Rightarrow> ('a \<Rightarrow> 'b io) \<Rightarrow> 'b io" where
  "bind_io m f =
     (case snd m of
        Inl e \<Rightarrow> (fst m, Inl e)
      | Inr v \<Rightarrow> (fst m @ fst (f v), snd (f v)))"

text \<open>
  A page of an opened reader is given by what \<^verbatim>\<open>pdf_reader.pages[i]\<close> followed by
  \<^verbatim>\<open>extract_text()\<close> yields: an exception, or the text. A reader is given by what
  access to \<^verbatim>\<open>pdf_reader.pages\<close> yields: an exception (an encrypted file that was not
  decrypted, for one), or the pages in document order.
\<close>

type_synonym page = "pyexn + page_text"

type_synonym pdf_reader = "pyexn + page list"

text \<open>
  The answers of the libraries and of the operating system. \<open>PdfReader\<close> is
  \<^verbatim>\<open>pypdf.PdfReader(path)\<close>: an exception, or the reader.
  \<open>subprocess_run\<close> is \<^verbatim>\<open>subprocess.run(command, check=True)\<close>: \<open>None\<close> when the
  command ran and exited with 0, the exception otherwise.
\<close>

record world =
  PdfReader :: "string \<Rightarrow> pyexn + pdf_reader"
  subprocess_run :: "string list \<Rightarrow> pyexn option"
  isdir :: "string \<Rightarrow> bool"
  path_exists :: "string \<Rightarrow> bool"
  listdir :: "string \<Rightarrow> pyexn + string list"
  getpid :: nat

text \<open>
  The answer of \<open>PdfReader\<close> for a PDF that can be read: the reader opens, its pages
  are accessible, and each page extracts to its text.
\<close>

definition opened :: "page_text list \<Rightarrow> pyexn + pdf_reader" where
  "opened texts = Inr (Inr (map Inr texts))"

section \<open>Built-in string operations\<close>

text \<open>\<^verbatim>\<open>str.isspace\<close> on one code point, the table of CPython.\<close>

definition isspace :: "nat \<Rightarrow> bool" where
  "isspace c \<longleftrightarrow>
     (9 \<le> c \<and> c \<le> 13) \<or> (28 \<le> c \<and> c \<le> 32) \<or> c = 133 \<or> c = 160 \<or> c = 5760 \<or>
     (8192 \<le> c \<and> c \<le> 8202) \<or> c = 8232 \<or> c = 8233 \<or> c = 8239 \<or> c = 8287 \<or> c = 12288"

definition strip_by :: "('a \<Rightarrow> bool) \<Rightarrow> 'a list \<Rightarrow> 'a list" where
  "strip_by sp s = rev (dropWhile sp (rev (dropWhile sp s)))"

definition strip :: "page_text \<Rightarrow> page_text" where
  "strip s = strip_by isspace s"

definition strip_str :: "string \<Rightarrow> string" where
  "strip_str s = strip_by (\<lambda>c. isspace (of_char c)) s"

definition digit :: "nat \<Rightarrow> char" where
  "digit d = char_of (48 + d)"

fun str_nat :: "nat \<Rightarrow> string" where
  "str_nat n = (if n < 10 then [digit n] else str_nat (n div 10) @ [digit (n mod 10)])"

declare str_nat.simps [simp del]

definition str_int :: "int \<Rightarrow> string" where
  "str_int i = (if i < 0 then CHR ''-'' # str_nat (nat (- i)) else str_nat (nat i))"

definition endswith :: "string \<Rightarrow> string \<Rightarrow> bool" where
  "endswith s suf \<longleftrightarrow> length suf \<le> length s \<and> drop (length s - length suf) s = suf"

definition startswith :: "string \<Rightarrow> string \<Rightarrow> bool" where
  "startswith s pre \<longleftrightarrow> take (length pre) s = pre"

fun join_str :: "string \<Rightarrow> string list \<Rightarrow> string" where
  "join_str sep [] = []"
| "join_str sep [x] = x"
| "join_str sep (x # y # ys) = x @ sep @ join_str sep (y # ys)"

text \<open>\<^verbatim>\<open>os.path.join\<close> and \<^verbatim>\<open>os.path.basename\<close> of \<^verbatim>\<open>posixpath\<close>.\<close>

definition path_join :: "string \<Rightarrow> string \<Rightarrow> string" where
  "path_join a b =
     (if startswith b ''/'' then b
      else if a = [] \<or> endswith a ''/'' then a @ b
      else a @ ''/'' @ b)"

definition basename :: "string \<Rightarrow> string" where
  "basename p = rev (takeWhile (\<lambda>c. c \<noteq> CHR ''/'') (rev p))"

text \<open>A value between single quotes, as the messages print file names.\<close>

definition quoted :: "string \<Rightarrow> string" where
  "quoted s = [CHR 0x27] @ s @ [CHR 0x27]"

text \<open>The arguments of the \<^verbatim>\<open>subprocess.run\<close> calls among the events, in order.\<close>

fun commands_run :: "event list \<Rightarrow> string list list" where
  "commands_run [] = []"
| "commands_run (Run cmd # evs) = cmd # commands_run evs"
| "commands_run (e # evs) = commands_run evs"

section \<open>check_ocr.py\<close>

definition THRESHOLD :: nat where
  "THRESHOLD = 52"

definition dashes :: "nat \<Rightarrow> string" where
  "dashes n = replicate n CHR ''-''"

text \<open>
  The loop \<^verbatim>\<open>for i in range(num_pages)\<close> of \<open>analyze_pdf_pages\<close>, over the indices
  still to visit, with the two lists it appends to. An exception of the page access or of
  the text extraction ends the loop and leaves it.
\<close>

fun check_pages ::
  "page list \<Rightarrow> nat list \<Rightarrow> nat list \<times> string list \<Rightarrow> pyexn + nat list \<times> string list" where
  "check_pages pages [] (pages_needing_ocr, char_counts) = Inr (pages_needing_ocr, char_counts)"
| "check_pages pages (i # is) (pages_needing_ocr, char_counts) =
     (case pages ! i of
        Inl e \<Rightarrow> Inl e
      | Inr extracted \<Rightarrow>
          (let text = strip extracted;
               char_counts' =
                 char_counts @ [''Page '' @ str_nat (i + 1) @ '': '' @ str_nat (length text)]
           in if length text \<le> THRESHOLD
              then check_pages pages is (pages_needing_ocr @ [i + 1], char_counts')
              else check_pages pages is (pages_needing_ocr, char_counts')))"

definition analyze_pdf_pages :: "world \<Rightarrow> string \<Rightarrow> nat list io" where
  "analyze_pdf_pages w file_path =
     (case PdfReader w file_path of
        Inl e \<Rightarrow>
          if is_FileNotFoundError e then
            ([Print (''Error: The file '' @ quoted file_path @ '' was not found.'')],
             Inr [])
          else if is_Exception e then
            ([Print (''An error occurred while reading the PDF: '' @ exn_str e)], Inr [])
          else raise_io e
      | Inr pdf_reader \<Rightarrow>
          (case pdf_reader of
             Inl e \<Rightarrow> raise_io e
           | Inr pages \<Rightarrow>
               (let num_pages = length pages;
                    analyzing = Print (''Analyzing '' @ quoted file_path @ '' ('' @
                                       str_nat num_pages @ '' pages)...'')
                in case check_pages pages [0..<num_pages] ([], []) of
                     Inl e \<Rightarrow> ([analyzing], Inl e)
                   | Inr (pages_needing_ocr, char_counts) \<Rightarrow>
                       ([analyzing,
                         Print (CHR 0x0A # ''--- Analysis Complete ---''),
                         Print ''Character counts per page:''] @
                        map Print char_counts @
                        [if pages_needing_ocr \<noteq> []
                         then Print (''Found '' @ str_nat (length pages_needing_ocr) @
                                     '' pages that likely need OCR.'')
                         else Print ''Found no pages that need OCR. The document appears to be fully searchable.'',
                         Print ''-------------------------''],
                        Inr pages_needing_ocr))))"


text \<open>The argument list that \<open>run_ocr_for_file\<close> builds (its local \<^verbatim>\<open>command\<close>).\<close>

definition redo_command :: "string \<Rightarrow> string \<Rightarrow> nat list \<Rightarrow> string list" where
  "redo_command input_file output_folder pages_to_ocr =
     (let filename = basename input_file;
          output_file = path_join output_folder filename;
          pages_arg = join_str '','' (map str_nat pages_to_ocr)
      in [''ocrmypdf'', ''-l'', ''ell+eng+tur'', ''--redo-ocr'', ''--pages'', pages_arg,
          input_file, output_file])"

definition run_ocr_for_file :: "world \<Rightarrow> string \<Rightarrow> string \<Rightarrow> nat list \<Rightarrow> unit io" where
  "run_ocr_for_file w input_file output_folder pages_to_ocr =
     (if pages_to_ocr = [] then
        emit [Print (''No pages to OCR for '' @ input_file @ ''. Skipping OCR step.'')]
      else
        (let filename = basename input_file;
             pages_arg = join_str '','' (map str_nat pages_to_ocr);
             command = redo_command input_file output_folder pages_to_ocr;
             started = [Print (''Running command for '' @ filename @ '' on pages: '' @ pages_arg),
                        Run command]
         in case subprocess_run w command of
              None \<Rightarrow>
                emit (started @ [Print (''OCR completed successfully for '' @ filename @ ''.'')])
            | Some (CalledProcessError rc err m) \<Rightarrow>
                emit (started @
                  [Print (''ocrmypdf failed for '' @ filename @ '' with error: '' @ m)])
            | Some (FileNotFoundError m) \<Rightarrow>
                emit (started @
                  [Print (''ocrmypdf command not found. Please ensure it'' @ [CHR 0x27] @
                          ''s installed and in your PATH.'')])
            | Some (OtherException m) \<Rightarrow> (started, Inl (OtherException m))
            | Some KeyboardInterrupt \<Rightarrow> (started, Inl KeyboardInterrupt)))"

text \<open>The body of the loop of \<open>process_folder\<close>, and the loop.\<close>

definition process_file :: "world \<Rightarrow> string \<Rightarrow> string \<Rightarrow> string \<Rightarrow> unit io" where
  "process_file w source_folder output_folder filename =
     (let file_path = path_join source_folder filename
      in bind_io (analyze_pdf_pages w file_path) (\<lambda>pages_to_ocr.
         bind_io (run_ocr_for_file w file_path output_folder pages_to_ocr) (\<lambda>u.
         emit [Print (dashes 30)])))"

fun process_files :: "world \<Rightarrow> string \<Rightarrow> string \<Rightarrow> string list \<Rightarrow> unit io" where
  "process_files w source_folder output_folder [] = return_io ()"
| "process_files w source_folder output_folder (filename # file_list) =
     bind_io (process_file w source_folder output_folder filename) (\<lambda>u.
       process_files w source_folder output_folder file_list)"

definition process_folder :: "world \<Rightarrow> string \<Rightarrow> string \<Rightarrow> unit io" where
  "process_folder w source_folder output_folder =
     (if \<not> isdir w source_folder then
        emit [Print (''Error: Source folder '' @ quoted source_folder @ '' does not exist.'')]
      else
        bind_io
          (if \<not> path_exists w output_folder
           then emit [Makedirs output_folder,
                      Print (''Created output folder: '' @ quoted output_folder)]
           else return_io ())
          (\<lambda>u. case listdir w source_folder of
                  Inl e \<Rightarrow> raise_io e
                | Inr names \<Rightarrow>
                    (let file_list = filter (\<lambda>f. endswith f ''.pdf'') names
                     in if file_list = [] then
                          emit [Print (''No PDF files found in '' @ quoted source_folder @ ''.'')]
                        else
                          bind_io
                            (emit [Print (''Found '' @ str_nat (length file_list) @
                                          '' PDF files to process.''),
                                   Print (dashes 30)])
                            (\<lambda>u. process_files w source_folder output_folder file_list))))"

text \<open>
  Running a script: the events, and the exit status of the process, which is zero when
  the top-level call returns and non-zero when an exception leaves it.
\<close>

datatype exit_status = Exit_zero | Exit_nonzero

definition run_script :: "unit io \<Rightarrow> event list \<times> exit_status" where
  "run_script m = (fst m, case snd m of Inl e \<Rightarrow> Exit_nonzero | Inr u \<Rightarrow> Exit_zero)"

definition check_ocr_script :: "world \<Rightarrow> event list \<times> exit_status" where
  "check_ocr_script w = run_script (process_folder w ''archive'' ''ocr'')"

section \<open>ocr.py\<close>

definition SOURCE_DIRECTORY :: string where
  "SOURCE_DIRECTORY = ''archive''"

definition OUTPUT_DIRECTORY :: string where
  "OUTPUT_DIRECTORY = ''ocr''"

definition LANGUAGES :: string where
  "LANGUAGES = ''eng+ell+tur''"

definition OUTPUT_SUFFIX :: string where
  "OUTPUT_SUFFIX = ''_ocr''"

text \<open>
  \<^verbatim>\<open>str.lower\<close> on the code points below 256: the letters A to Z and the capital
  letters of Latin-1 (192 to 222 without the multiplication sign 215) move up by 32.
\<close>

definition lower_char :: "char \<Rightarrow> char" where
  "lower_char c =
     (let n = of_char c :: nat
      in if (65 \<le> n \<and> n \<le> 90) \<or> (192 \<le> n \<and> n \<le> 222 \<and> n \<noteq> 215) then char_of (n + 32) else c)"

definition lower :: "string \<Rightarrow> string" where
  "lower s = map lower_char s"

text \<open>\<^verbatim>\<open>str.rfind\<close> for one character: the last index where it occurs, or \<open>-1\<close>.\<close>

definition rfind :: "string \<Rightarrow> char \<Rightarrow> int" where
  "rfind p c =
     (if c \<in> set p then int (length p) - 1 - int (length (takeWhile (\<lambda>x. x \<noteq> c) (rev p)))
      else - 1)"

text \<open>
  \<^verbatim>\<open>os.path.splitext\<close> of \<^verbatim>\<open>posixpath\<close>: the extension starts at the last dot of the
  last path component, unless only dots precede it there.
\<close>

definition splitext :: "string \<Rightarrow> string \<times> string" where
  "splitext p =
     (let sepIndex = rfind p CHR ''/'';
          dotIndex = rfind p CHR ''.''
      in if dotIndex > sepIndex \<and>
            list_ex (\<lambda>k. p ! k \<noteq> CHR ''.'') [nat (sepIndex + 1)..<nat dotIndex]
         then (take (nat dotIndex) p, drop (nat dotIndex) p)
         else (p, []))"

text \<open>The argument list that \<open>run_ocr_on_file\<close> builds (its local \<^verbatim>\<open>command\<close>).\<close>

definition force_command ::
  "string \<Rightarrow> string \<Rightarrow> string \<Rightarrow> string \<Rightarrow> string \<Rightarrow> string list" where
  "force_command input_file source_dir output_dir languages suffix' =
     (let filename_without_ext = fst (splitext input_file);
          output_file = filename_without_ext @ suffix' @ ''.pdf'';
          input_path = path_join source_dir input_file;
          output_path = path_join output_dir output_file
      in [''ocrmypdf'', ''-l'', languages, ''--force-ocr'', input_path, output_path])"

definition run_ocr_on_file ::
  "world \<Rightarrow> string \<Rightarrow> string \<Rightarrow> string \<Rightarrow> string \<Rightarrow> string \<Rightarrow> string option io" where
  "run_ocr_on_file w input_file source_dir output_dir languages suffix' =
     (let filename_without_ext = fst (splitext input_file);
          output_file = filename_without_ext @ suffix' @ ''.pdf'';
          pid = ''[Process '' @ str_nat (getpid w) @ ''] '';
          command = force_command input_file source_dir output_dir languages suffix';
          started = [Print (pid @ ''STARTING: OCR for '' @ quoted input_file), Run command];
          indent = CHR 0x0A # replicate 8 CHR '' ''
      in case subprocess_run w command of
           None \<Rightarrow> (started @ [Print (pid @ ''SUCCESS: Created '' @ quoted output_file)], Inr None)
         | Some (FileNotFoundError m) \<Rightarrow>
             (started,
              Inr (Some (pid @ ''FATAL ERROR: The '' @ quoted ''ocrmypdf'' @
                '' command was not found. Please ensure it is installed and accessible in your system'' @
                [CHR 0x27] @ ''s PATH.'')))
         | Some (CalledProcessError rc err m) \<Rightarrow>
             (started,
              Inr (Some (indent @ pid @ ''FAILED to process '' @ quoted input_file @ ''.'' @
                indent @ ''ocrmypdf returned an error (exit code '' @ str_int rc @ '').'' @
                indent @ ''--- OCRmyPDF Error Output ---'' @
                indent @ strip_str err @
                indent @ ''-----------------------------'' @
                indent)))
         | Some (OtherException m) \<Rightarrow> (started, Inl (OtherException m))
         | Some KeyboardInterrupt \<Rightarrow> (started, Inl KeyboardInterrupt))"

text \<open>The list comprehension of \<open>main\<close> (its local \<^verbatim>\<open>files_to_process\<close>).\<close>

definition files_to_process :: "string list \<Rightarrow> string list" where
  "files_to_process all_files =
     filter (\<lambda>f. endswith (lower f) ''.pdf'' \<and> \<not> endswith (lower f) (OUTPUT_SUFFIX @ ''.pdf''))
       all_files"

text \<open>
  The body of the loop of \<open>main\<close>: it prints the name, builds the
  \<^verbatim>\<open>functools.partial\<close> object of \<open>run_ocr_on_file\<close> and drops it.
\<close>

definition main_announce :: "world \<Rightarrow> string \<Rightarrow> event list" where
  "main_announce w f =
     (let worker = (\<lambda>input_file.
            run_ocr_on_file w input_file SOURCE_DIRECTORY OUTPUT_DIRECTORY LANGUAGES OUTPUT_SUFFIX)
      in [Print (''  - '' @ f)])"

definition main :: "world \<Rightarrow> unit io" where
  "main w =
     (case listdir w SOURCE_DIRECTORY of
        Inl e \<Rightarrow>
          if is_FileNotFoundError e then
            emit [Print (''Error: The directory '' @ quoted SOURCE_DIRECTORY @ '' was not found.'')]
          else raise_io e
      | Inr all_files \<Rightarrow>
          (let to_process = files_to_process all_files
           in if to_process = [] then emit [Print ''No new PDF files to process found.'']
              else
                emit ([Print (''Found '' @ str_nat (length to_process) @
                              '' PDF file(s) to process:'')] @
                      concat (map (main_announce w) to_process) @
                      [Print (dashes 40)])))"

definition ocr_script :: "world \<Rightarrow> event list \<times> exit_status" where
  "ocr_script w = run_script (main w)"

section \<open>Failures of the OCR tool\<close>

text \<open>
  The two ways an OCR call fails that the scripts handle: the tool exits with a status
  other than 0 (\<open>CalledProcessError\<close>), or its executable is missing
  (\<open>FileNotFoundError\<close>).
\<close>

definition is_ocr_failure :: "pyexn \<Rightarrow> bool" where
  "is_ocr_failure e \<longleftrightarrow> is_CalledProcessError e \<or> is_FileNotFoundError e"

section \<open>A concrete run\<close>

text \<open>
  A folder \<^verbatim>\<open>archive\<close> used to run the definitions: \<^verbatim>\<open>a.pdf\<close> has three pages of 10,
  100 and 40 letters, \<^verbatim>\<open>b.pdf\<close> does not parse, \<^verbatim>\<open>c.pdf\<close> has one page of 60 letters,
  \<^verbatim>\<open>blank.pdf\<close> has one page of 53 spaces, and the OCR tool exits with status 2 on
  every call. In the second run the executable of the OCR tool is missing. In the third
  run the folder holds \<^verbatim>\<open>locked.pdf\<close>, which is encrypted (the reader opens and the
  access to its pages raises), and \<^verbatim>\<open>c.pdf\<close>.
\<close>

definition demo_listing :: "string list" where
  "demo_listing = [''a.pdf'', ''b.pdf'', ''c.pdf'', ''a_ocr.pdf'', ''notes.txt'', ''D.PDF'']"

definition demo_world :: world where
  "demo_world =
     \<lparr> PdfReader = (\<lambda>p.
         if p = ''archive/a.pdf'' then opened [replicate 10 97, replicate 100 97, replicate 40 97]
         else if p = ''archive/b.pdf'' then Inl (OtherException ''EOF marker not found'')
         else if p = ''archive/c.pdf'' then opened [replicate 60 97]
         else if p = ''archive/blank.pdf'' then opened [replicate 53 32]
         else Inl (FileNotFoundError ''[Errno 2] No such file or directory'')),
       subprocess_run = (\<lambda>cmd. Some (CalledProcessError 2 ''  no input  '' ''exit status 2'')),
       isdir = (\<lambda>d. d = ''archive''),
       path_exists = (\<lambda>p. p = ''archive''),
       listdir = (\<lambda>d. if d = ''archive'' then Inr demo_listing
                       else Inl (FileNotFoundError ''[Errno 2] No such file or directory'')),
       getpid = 4242 \<rparr>"

definition missing_world :: world where
  "missing_world =
     demo_world\<lparr>subprocess_run :=
       (\<lambda>cmd. Some (FileNotFoundError ''[Errno 2] No such file or directory''))\<rparr>"

definition locked_world :: world where
  "locked_world =
     demo_world
       \<lparr>PdfReader := (\<lambda>p.
          if p = ''archive/locked.pdf''
          then Inr (Inl (OtherException ''File has not been decrypted''))
          else PdfReader demo_world p),
        listdir := (\<lambda>d. Inr [''locked.pdf'', ''c.pdf''])\<rparr>"

section \<open>The page classifier\<close>

lemma check_pages_eq:
  "\<forall>i\<in>set is. i < length pages \<Longrightarrow>
   check_pages (map Inr pages) is (acc, cc) =
     Inr (acc @ map Suc (filter (\<lambda>i. length (strip (pages ! i)) \<le> THRESHOLD) is),
          cc @ map (\<lambda>i. ''Page '' @ str_nat (i + 1) @ '': '' @
                            str_nat (length (strip (pages ! i)))) is)"
  by (induction "is" arbitrary: acc cc) (simp_all add: Let_def)

lemma check_pages_opened:
  "check_pages (map Inr pages) [0..<length pages] ([], []) =
     Inr (map Suc (filter (\<lambda>i. length (strip (pages ! i)) \<le> THRESHOLD) [0..<length pages]),
          map (\<lambda>i. ''Page '' @ str_nat (i + 1) @ '': '' @
                     str_nat (length (strip (pages ! i)))) [0..<length pages])"
  using check_pages_eq [of "[0..<length pages]" pages "[]" "[]"] by simp

lemma analyze_pdf_pages_result:
  "PdfReader w file_path = opened pages \<Longrightarrow>
   snd (analyze_pdf_pages w file_path) =
     Inr (map Suc (filter (\<lambda>i. length (strip (pages ! i)) \<le> THRESHOLD) [0..<length pages]))"
  by (simp add: analyze_pdf_pages_def opened_def check_pages_opened Let_def)

lemma strip_replicate: "\<not> isspace c \<Longrightarrow> strip (replicate n c) = replicate n c"
  by (simp add: strip_def strip_by_def)

lemma strip_all_space: "isspace c \<Longrightarrow> strip (replicate n c) = []"
  by (simp add: strip_def strip_by_def)

lemma demo_a: "PdfReader demo_world ''archive/a.pdf'' = opened [replicate 10 97, replicate 100 97, replicate 40 97]"
  by (simp add: demo_world_def)

text \<open>
  Claim C1. For a PDF that can be read, \<open>analyze_pdf_pages\<close> returns exactly the
  1-based numbers of the pages whose stripped text has at most 52 code points, in document
  order; in particular every page whose stripped text has length at most 52 (also length
  0) is in the result.
\<close>

theorem analyze_pdf_pages_exact:
  assumes "PdfReader w file_path = opened pages"
  shows "\<exists>ps. snd (analyze_pdf_pages w file_path) = Inr ps \<and>
           ps = map Suc (filter (\<lambda>i. length (strip (pages ! i)) \<le> 52) [0..<length pages]) \<and>
           (\<forall>p. p \<in> set ps \<longleftrightarrow> 1 \<le> p \<and> p \<le> length pages \<and> length (strip (pages ! (p - 1))) \<le> 52) \<and>
           (\<forall>i<length pages. length (strip (pages ! i)) \<le> 52 \<longrightarrow> i + 1 \<in> set ps)"
proof -
  let ?ps = "map Suc (filter (\<lambda>i. length (strip (pages ! i)) \<le> 52) [0..<length pages])"
  have res: "snd (analyze_pdf_pages w file_path) = Inr ?ps"
    using analyze_pdf_pages_result [OF assms] by (simp add: THRESHOLD_def)
  have mem: "p \<in> set ?ps \<longleftrightarrow> 1 \<le> p \<and> p \<le> length pages \<and> length (strip (pages ! (p - 1))) \<le> 52" for p
  proof (cases p)
    case 0
    then show ?thesis by auto
  next
    case (Suc i)
    then show ?thesis by (auto simp: image_iff)
  qed
  have incl: "\<forall>i<length pages. length (strip (pages ! i)) \<le> 52 \<longrightarrow> i + 1 \<in> set ?ps"
    by simp
  from res mem incl show ?thesis by blast
qed

text \<open>The run on \<^verbatim>\<open>a.pdf\<close>: pages of 10, 100 and 40 letters give the list 1, 3.\<close>

theorem analyze_pdf_pages_exact_witness:
  "PdfReader demo_world ''archive/a.pdf'' = opened [replicate 10 97, replicate 100 97, replicate 40 97] \<and>
   snd (analyze_pdf_pages demo_world ''archive/a.pdf'') = Inr [1, 3] \<and>
   (2::nat) < length [replicate 10 (97::nat), replicate 100 97, replicate 40 97] \<and>
   length (strip ([replicate 10 97, replicate 100 97, replicate 40 97] ! 2)) \<le> 52"
  using analyze_pdf_pages_exact [OF demo_a]
  by (simp add: demo_a strip_replicate isspace_def upt_rec [of 0] upt_rec [of 1] upt_rec [of 2])

lemma demo_blank: "PdfReader demo_world ''archive/blank.pdf'' = opened [replicate 53 32]"
  by (simp add: demo_world_def)

lemma demo_c: "PdfReader demo_world ''archive/c.pdf'' = opened [replicate 60 97]"
  by (simp add: demo_world_def)

text \<open>
  Claim C2, as stated over the raw extracted text, fails: the only page of
  \<^verbatim>\<open>blank.pdf\<close> extracts to 53 spaces, more than 52 characters, and page 1 is in the
  result, because the length is taken after \<^verbatim>\<open>strip()\<close>.
\<close>

theorem raw_length_counterexample:
  "PdfReader demo_world ''archive/blank.pdf'' = opened [replicate 53 32] \<and>
   52 < length ([replicate 53 (32::nat)] ! 0) \<and>
   snd (analyze_pdf_pages demo_world ''archive/blank.pdf'') = Inr [0 + 1]"
  using analyze_pdf_pages_result [OF demo_blank]
  by (simp add: demo_blank strip_all_space isspace_def THRESHOLD_def)

text \<open>
  Claim C2, amended. For a PDF that can be read, a page whose extracted text has more
  than 52 code points after stripping the whitespace at both ends is not in the list
  \<open>analyze_pdf_pages\<close> returns.
\<close>

theorem long_page_not_flagged:
  assumes "PdfReader w file_path = opened pages"
    and "i < length pages"
    and "52 < length (strip (pages ! i))"
  shows "\<exists>ps. snd (analyze_pdf_pages w file_path) = Inr ps \<and> i + 1 \<notin> set ps"
  using analyze_pdf_pages_result [OF assms(1)] assms(2,3)
  by (auto simp: THRESHOLD_def)

text \<open>The run on \<^verbatim>\<open>c.pdf\<close>, one page of 60 letters.\<close>

theorem long_page_not_flagged_witness:
  "PdfReader demo_world ''archive/c.pdf'' = opened [replicate 60 97] \<and>
   (0::nat) < length [replicate 60 (97::nat)] \<and>
   52 < length (strip ([replicate 60 97] ! 0)) \<and>
   (\<exists>ps. snd (analyze_pdf_pages demo_world ''archive/c.pdf'') = Inr ps \<and> 0 + 1 \<notin> set ps)"
proof -
  have h2: "(0::nat) < length [replicate 60 (97::nat)]" by simp
  have h3: "52 < length (strip ([replicate 60 97] ! 0))"
    by (simp add: strip_replicate isspace_def)
  from long_page_not_flagged [OF demo_c h2 h3] demo_c h2 h3 show ?thesis by blast
qed

lemma analyze_pdf_pages_counts:
  "PdfReader w file_path = opened pages \<Longrightarrow> i < length pages \<Longrightarrow>
   Print (''Page '' @ str_nat (i + 1) @ '': '' @ str_nat (length (strip (pages ! i))))
     \<in> set (fst (analyze_pdf_pages w file_path))"
  by (auto simp add: analyze_pdf_pages_def opened_def check_pages_opened Let_def image_iff)

text \<open>
  Claim C5. For a document of three pages whose character counts, as the analysis takes
  and prints them, are 10, 100 and 40, \<open>analyze_pdf_pages\<close> returns the list 1, 3.
\<close>

theorem char_counts_example:
  assumes "PdfReader w file_path = opened [p1, p2, p3]"
    and "length (strip p1) = 10" and "length (strip p2) = 100" and "length (strip p3) = 40"
  shows "snd (analyze_pdf_pages w file_path) = Inr [1, 3] \<and>
         set [Print ''Page 1: 10'', Print ''Page 2: 100'', Print ''Page 3: 40'']
           \<subseteq> set (fst (analyze_pdf_pages w file_path))"
proof -
  have res: "snd (analyze_pdf_pages w file_path) = Inr [1, 3]"
    using analyze_pdf_pages_result [OF assms(1)] assms(2-4)
    by (simp add: THRESHOLD_def)
  have s1: "str_nat (Suc 0) = ''1''" "str_nat (Suc (Suc 0)) = ''2''" "str_nat 3 = ''3''"
    "str_nat (Suc (Suc (Suc 0))) = ''3''"
    "str_nat 10 = ''10''" "str_nat 100 = ''100''" "str_nat 40 = ''40''"
    by code_simp+
  have "Print ''Page 1: 10'' \<in> set (fst (analyze_pdf_pages w file_path))"
    using analyze_pdf_pages_counts [OF assms(1), of 0] assms(2) by (simp add: s1)
  moreover have "Print ''Page 2: 100'' \<in> set (fst (analyze_pdf_pages w file_path))"
    using analyze_pdf_pages_counts [OF assms(1), of 1] assms(3) by (simp add: s1)
  moreover have "Print ''Page 3: 40'' \<in> set (fst (analyze_pdf_pages w file_path))"
    using analyze_pdf_pages_counts [OF assms(1), of 2] assms(4) by (simp add: s1)
  ultimately show ?thesis using res by simp
qed

text \<open>The run on \<^verbatim>\<open>a.pdf\<close>.\<close>

theorem char_counts_example_witness:
  "PdfReader demo_world ''archive/a.pdf'' = opened [replicate 10 97, replicate 100 97, replicate 40 97] \<and>
   length (strip (replicate 10 97)) = 10 \<and> length (strip (replicate 100 97)) = 100 \<and>
   length (strip (replicate 40 97)) = 40 \<and>
   snd (analyze_pdf_pages demo_world ''archive/a.pdf'') = Inr [1, 3]"
proof -
  have h: "length (strip (replicate 10 97)) = 10" "length (strip (replicate 100 97)) = 100"
    "length (strip (replicate 40 97)) = 40"
    by (simp_all add: strip_replicate isspace_def)
  from char_counts_example [OF demo_a h] demo_a h show ?thesis by simp
qed

text \<open>
  Claim C10. For a PDF of \<open>n\<close> pages that can be read, the list
  \<open>analyze_pdf_pages\<close> returns is strictly increasing, hence without duplicates, and each
  of its elements lies between 1 and \<open>n\<close>.
\<close>

theorem pages_needing_ocr_increasing:
  assumes "PdfReader w file_path = opened pages"
  shows "\<exists>ps. snd (analyze_pdf_pages w file_path) = Inr ps \<and>
           sorted_wrt (<) ps \<and> distinct ps \<and> (\<forall>p\<in>set ps. 1 \<le> p \<and> p \<le> length pages)"
proof -
  let ?is = "filter (\<lambda>i. length (strip (pages ! i)) \<le> THRESHOLD) [0..<length pages]"
  have res: "snd (analyze_pdf_pages w file_path) = Inr (map Suc ?is)"
    by (rule analyze_pdf_pages_result [OF assms])
  have "sorted_wrt (<) ?is"
    by (rule sorted_wrt_filter) simp
  then have inc: "sorted_wrt (<) (map Suc ?is)"
    by (simp add: sorted_wrt_map)
  then have dist: "distinct (map Suc ?is)"
    by (simp add: strict_sorted_iff)
  have rng: "\<forall>p\<in>set (map Suc ?is). 1 \<le> p \<and> p \<le> length pages"
    by auto
  from res inc dist rng show ?thesis by blast
qed

text \<open>The run on \<^verbatim>\<open>a.pdf\<close>: the list 1, 3 of a document of three pages.\<close>

theorem pages_needing_ocr_increasing_witness:
  "PdfReader demo_world ''archive/a.pdf'' = opened [replicate 10 97, replicate 100 97, replicate 40 97] \<and>
   snd (analyze_pdf_pages demo_world ''archive/a.pdf'') = Inr [1, 3] \<and>
   sorted_wrt (<) [1, 3::nat] \<and> distinct [1, 3::nat] \<and>
   (1::nat) \<le> 1 \<and> (3::nat) \<le> length [replicate 10 (97::nat), replicate 100 97, replicate 40 97]"
proof -
  have "snd (analyze_pdf_pages demo_world ''archive/a.pdf'') = Inr [1, 3]"
    using analyze_pdf_pages_result [OF demo_a]
    by (simp add: strip_replicate isspace_def THRESHOLD_def upt_rec [of 0] upt_rec [of 1] upt_rec [of 2])
  with pages_needing_ocr_increasing [OF demo_a] demo_a show ?thesis by auto
qed

section \<open>The OCR invoker and the batch loop\<close>

lemma commands_run_append [simp]:
  "commands_run (xs @ ys) = commands_run xs @ commands_run ys"
  by (induction xs rule: commands_run.induct) simp_all

lemma commands_run_map_Print [simp]: "commands_run (map Print xs) = []"
  by (induction xs) simp_all

lemma commands_run_map_Print_comp [simp]: "commands_run (map (Print \<circ> f) xs) = []"
  by (induction xs) simp_all

lemma bind_io_Inr [simp]: "bind_io (evs, Inr v) f = (evs @ fst (f v), snd (f v))"
  by (simp add: bind_io_def)

lemma bind_io_Inl [simp]: "bind_io (evs, Inl e) f = (evs, Inl e)"
  by (simp add: bind_io_def)

lemma bind_io_returns:
  "snd m = Inr v \<Longrightarrow> bind_io m f = (fst m @ fst (f v), snd (f v))"
  by (simp add: bind_io_def)

lemma analyze_pdf_pages_unreadable:
  "PdfReader w file_path = Inl e \<Longrightarrow> is_Exception e \<Longrightarrow>
   analyze_pdf_pages w file_path =
     ([Print (if is_FileNotFoundError e
              then ''Error: The file '' @ quoted file_path @ '' was not found.''
              else ''An error occurred while reading the PDF: '' @ exn_str e)], Inr [])"
  by (simp add: analyze_pdf_pages_def)

lemma analyze_pdf_pages_no_run: "commands_run (fst (analyze_pdf_pages w file_path)) = []"
  by (simp add: analyze_pdf_pages_def raise_io_def Let_def split: sum.splits prod.splits)

lemma run_ocr_for_file_empty:
  "run_ocr_for_file w input_file output_folder [] =
     ([Print (''No pages to OCR for '' @ input_file @ ''. Skipping OCR step.'')], Inr ())"
  by (simp add: run_ocr_for_file_def emit_def)

lemma run_ocr_for_file_commands:
  "commands_run (fst (run_ocr_for_file w input_file output_folder pages_to_ocr)) =
     (if pages_to_ocr = [] then [] else [redo_command input_file output_folder pages_to_ocr])"
  by (simp add: run_ocr_for_file_def emit_def Let_def split: option.splits pyexn.splits)

lemma run_ocr_on_file_commands:
  "commands_run (fst (run_ocr_on_file w input_file source_dir output_dir languages suffix')) =
     [force_command input_file source_dir output_dir languages suffix']"
  by (simp add: run_ocr_on_file_def Let_def split: option.splits pyexn.splits)

lemma demo_b: "PdfReader demo_world ''archive/b.pdf'' = Inl (OtherException ''EOF marker not found'')"
  by (simp add: demo_world_def)

lemma path_join_archive: "path_join ''archive'' (c # cs) = (if c = CHR ''/'' then c # cs else ''archive/'' @ c # cs)"
  by (simp add: path_join_def startswith_def endswith_def)

text \<open>
  Claim C3. With an empty page list \<open>run_ocr_for_file\<close> calls no subprocess and returns;
  it calls one exactly when the list is not empty. In the batch loop, a file for which
  \<open>analyze_pdf_pages\<close> yields the empty list causes no OCR call.
\<close>

theorem no_pages_no_ocr:
  "commands_run (fst (run_ocr_for_file w input_file output_folder [])) = [] \<and>
   snd (run_ocr_for_file w input_file output_folder []) = Inr () \<and>
   (commands_run (fst (run_ocr_for_file w input_file output_folder pages_to_ocr)) \<noteq> []
      \<longleftrightarrow> pages_to_ocr \<noteq> []) \<and>
   (snd (analyze_pdf_pages w (path_join source_folder filename)) = Inr [] \<longrightarrow>
      commands_run (fst (process_file w source_folder output_folder filename)) = [])"
proof -
  have "commands_run (fst (process_file w source_folder output_folder filename)) = []"
    if "snd (analyze_pdf_pages w (path_join source_folder filename)) = Inr []"
    using that
    by (simp add: process_file_def Let_def bind_io_returns [OF that] run_ocr_for_file_empty
        emit_def analyze_pdf_pages_no_run)
  then show ?thesis
    by (simp add: run_ocr_for_file_commands run_ocr_for_file_empty)
qed

text \<open>
  The run on \<^verbatim>\<open>c.pdf\<close>, whose only page is long enough, and a call with the pages 1, 3.
\<close>

theorem no_pages_no_ocr_witness:
  "snd (analyze_pdf_pages demo_world (path_join ''archive'' ''c.pdf'')) = Inr [] \<and>
   commands_run (fst (process_file demo_world ''archive'' ''ocr'' ''c.pdf'')) = [] \<and>
   commands_run (fst (run_ocr_for_file demo_world ''archive/a.pdf'' ''ocr'' [1, 3])) \<noteq> []"
proof -
  have "snd (analyze_pdf_pages demo_world (path_join ''archive'' ''c.pdf'')) = Inr []"
    using analyze_pdf_pages_result [OF demo_c]
    by (simp add: path_join_archive strip_replicate isspace_def THRESHOLD_def)
  with no_pages_no_ocr [of demo_world "''archive/a.pdf''" "''ocr''" "[1, 3]" "''archive''" "''c.pdf''"]
  show ?thesis by simp
qed

lemma analyze_pdf_pages_pages_raise:
  "PdfReader w file_path = Inr (Inl e) \<Longrightarrow> analyze_pdf_pages w file_path = ([], Inl e)"
  by (simp add: analyze_pdf_pages_def raise_io_def)

text \<open>
  Where opening the PDF raises \<^verbatim>\<open>FileNotFoundError\<close> or any other \<^verbatim>\<open>Exception\<close>,
  \<open>analyze_pdf_pages\<close> prints one error message and returns the empty list, and the batch
  loop skips the OCR step for that file and goes on with the remaining files.
\<close>

lemma open_failure_yields_empty:
  assumes "PdfReader w file_path = Inl e" and "is_Exception e"
  shows "\<exists>msg. msg = (if is_FileNotFoundError e
                      then ''Error: The file '' @ quoted file_path @ '' was not found.''
                      else ''An error occurred while reading the PDF: '' @ exn_str e) \<and>
           analyze_pdf_pages w file_path = ([Print msg], Inr []) \<and>
           (path_join source_folder filename = file_path \<longrightarrow>
              process_files w source_folder output_folder (filename # file_list) =
                ([Print msg,
                  Print (''No pages to OCR for '' @ file_path @ ''. Skipping OCR step.''),
                  Print (dashes 30)] @
                 fst (process_files w source_folder output_folder file_list),
                 snd (process_files w source_folder output_folder file_list)))"
  by (simp add: analyze_pdf_pages_unreadable [OF assms] process_file_def Let_def
      run_ocr_for_file_empty emit_def)

text \<open>
  Claim C4. Every path that does not exist or whose PDF cannot be read is to yield the
  empty list and one printed error, with no exception, and the batch is to go on. The code
  does not do this for a PDF that opens and whose pages cannot be accessed: only the call
  of \<^verbatim>\<open>PdfReader\<close> is inside the \<^verbatim>\<open>try\<close>. On the folder with the encrypted \<^verbatim>\<open>locked.pdf\<close> the exception
  leaves \<open>analyze_pdf_pages\<close> and the batch loop before anything is printed for the file,
  \<^verbatim>\<open>c.pdf\<close> is never looked at, and the script ends with a non-zero exit status.
\<close>

theorem encrypted_pdf_aborts_batch:
  "PdfReader locked_world ''archive/locked.pdf'' =
     Inr (Inl (OtherException ''File has not been decrypted'')) \<and>
   analyze_pdf_pages locked_world ''archive/locked.pdf'' =
     ([], Inl (OtherException ''File has not been decrypted'')) \<and>
   process_files locked_world ''archive'' ''ocr'' [''locked.pdf'', ''c.pdf''] =
     ([], Inl (OtherException ''File has not been decrypted'')) \<and>
   check_ocr_script locked_world =
     ([Makedirs ''ocr'', Print (''Created output folder: '' @ quoted ''ocr''),
       Print ''Found 2 PDF files to process.'', Print (dashes 30)],
      Exit_nonzero)"
proof -
  have r: "PdfReader locked_world ''archive/locked.pdf'' =
     Inr (Inl (OtherException ''File has not been decrypted''))"
    by (simp add: locked_world_def demo_world_def)
  have p: "path_join ''archive'' ''locked.pdf'' = ''archive/locked.pdf''"
    by (simp add: path_join_archive)
  have fs: "process_files locked_world ''archive'' ''ocr'' [''locked.pdf'', ''c.pdf''] =
     ([], Inl (OtherException ''File has not been decrypted''))"
    by (simp add: process_file_def p analyze_pdf_pages_pages_raise [OF r])
  have l: "endswith ''locked.pdf'' ''.pdf''" "endswith ''c.pdf'' ''.pdf''"
    by (simp_all add: endswith_def)
  have i: "isdir locked_world ''archive''" "\<not> path_exists locked_world ''ocr''"
    "listdir locked_world ''archive'' = Inr [''locked.pdf'', ''c.pdf'']"
    by (simp_all add: locked_world_def demo_world_def)
  have n: "str_nat (Suc (Suc 0)) = ''2''" by code_simp
  have "check_ocr_script locked_world =
     ([Makedirs ''ocr'', Print (''Created output folder: '' @ quoted ''ocr''),
       Print ''Found 2 PDF files to process.'', Print (dashes 30)],
      Exit_nonzero)"
    unfolding check_ocr_script_def run_script_def process_folder_def
    by (simp add: i l emit_def n fs del: process_files.simps)
  with r fs analyze_pdf_pages_pages_raise [OF r] show ?thesis by simp
qed

section \<open>Failures of the OCR call, and the batch variant\<close>

lemma analyze_pdf_pages_returns:
  "(\<exists>e. is_Exception e \<and> PdfReader w file_path = Inl e) \<or>
   (\<exists>texts. PdfReader w file_path = opened texts) \<Longrightarrow>
   \<exists>ps. snd (analyze_pdf_pages w file_path) = Inr ps"
  by (auto simp add: analyze_pdf_pages_unreadable analyze_pdf_pages_result)

lemma analyze_pdf_pages_ignores_ocr:
  "analyze_pdf_pages (w\<lparr>subprocess_run := r\<rparr>) file_path = analyze_pdf_pages w file_path"
  by (simp add: analyze_pdf_pages_def)

lemma run_ocr_for_file_failure:
  assumes "pages_to_ocr \<noteq> []"
    and "subprocess_run w (redo_command input_file output_folder pages_to_ocr) = Some e"
    and "is_ocr_failure e"
  shows "run_ocr_for_file w input_file output_folder pages_to_ocr =
     ([Print (''Running command for '' @ basename input_file @ '' on pages: '' @
              join_str '','' (map str_nat pages_to_ocr)),
       Run (redo_command input_file output_folder pages_to_ocr),
       Print (if is_CalledProcessError e
              then ''ocrmypdf failed for '' @ basename input_file @ '' with error: '' @ exn_str e
              else ''ocrmypdf command not found. Please ensure it'' @ [CHR 0x27] @
                   ''s installed and in your PATH.'')],
      Inr ())"
  using assms
  by (cases e) (simp_all add: run_ocr_for_file_def emit_def Let_def is_ocr_failure_def)

lemma run_ocr_for_file_returns:
  "(\<forall>e. subprocess_run w (redo_command input_file output_folder pages_to_ocr) = Some e \<longrightarrow>
        is_ocr_failure e) \<Longrightarrow>
   snd (run_ocr_for_file w input_file output_folder pages_to_ocr) = Inr ()"
  by (auto simp add: run_ocr_for_file_def emit_def Let_def is_ocr_failure_def
      split: option.splits pyexn.splits)

lemma run_ocr_on_file_exit_status:
  "subprocess_run w (force_command input_file source_dir output_dir languages suffix') =
     Some (CalledProcessError rc err m) \<Longrightarrow>
   run_ocr_on_file w input_file source_dir output_dir languages suffix' =
     ([Print (''[Process '' @ str_nat (getpid w) @ ''] STARTING: OCR for '' @ quoted input_file),
       Run (force_command input_file source_dir output_dir languages suffix')],
      Inr (Some
        (CHR 0x0A # replicate 8 CHR '' '' @
         ''[Process '' @ str_nat (getpid w) @ ''] FAILED to process '' @ quoted input_file @ ''.'' @
         CHR 0x0A # replicate 8 CHR '' '' @
         ''ocrmypdf returned an error (exit code '' @ str_int rc @ '').'' @
         CHR 0x0A # replicate 8 CHR '' '' @ ''--- OCRmyPDF Error Output ---'' @
         CHR 0x0A # replicate 8 CHR '' '' @ strip_str err @
         CHR 0x0A # replicate 8 CHR '' '' @ ''-----------------------------'' @
         CHR 0x0A # replicate 8 CHR '' '')))"
  by (simp add: run_ocr_on_file_def Let_def)

lemma run_ocr_on_file_missing:
  "subprocess_run w (force_command input_file source_dir output_dir languages suffix') =
     Some (FileNotFoundError m) \<Longrightarrow>
   run_ocr_on_file w input_file source_dir output_dir languages suffix' =
     ([Print (''[Process '' @ str_nat (getpid w) @ ''] STARTING: OCR for '' @ quoted input_file),
       Run (force_command input_file source_dir output_dir languages suffix')],
      Inr (Some
        (''[Process '' @ str_nat (getpid w) @ ''] FATAL ERROR: The '' @ quoted ''ocrmypdf'' @
         '' command was not found. Please ensure it is installed and accessible in your system'' @
         [CHR 0x27] @ ''s PATH.'')))"
  by (simp add: run_ocr_on_file_def Let_def)

lemma snd_bind_io:
  "snd (bind_io m f) = (case snd m of Inl e \<Rightarrow> Inl e | Inr v \<Rightarrow> snd (f v))"
  by (simp add: bind_io_def split: sum.splits)

lemma bind_io_assoc: "bind_io (bind_io m f) g = bind_io m (\<lambda>v. bind_io (f v) g)"
  by (simp add: bind_io_def split: sum.splits)

lemma process_files_append:
  "process_files w source_folder output_folder (xs @ ys) =
     bind_io (process_files w source_folder output_folder xs)
       (\<lambda>u. process_files w source_folder output_folder ys)"
proof (induction xs)
  case Nil
  then show ?case by (simp add: return_io_def)
next
  case (Cons x xs)
  then show ?case by (simp add: bind_io_assoc)
qed

lemma process_file_status:
  assumes "\<forall>cmd e. subprocess_run w cmd = Some e \<longrightarrow> is_ocr_failure e"
  shows "snd (process_file w source_folder output_folder filename) =
           (case snd (analyze_pdf_pages w (path_join source_folder filename)) of
              Inl e \<Rightarrow> Inl e
            | Inr ps \<Rightarrow> Inr ())"
proof -
  have "snd (run_ocr_for_file w (path_join source_folder filename) output_folder ps) = Inr ()"
    for ps
    using run_ocr_for_file_returns assms by blast
  then show ?thesis
    by (simp add: process_file_def Let_def snd_bind_io emit_def split: sum.splits)
qed

lemma process_files_status:
  assumes "\<forall>cmd e. subprocess_run w cmd = Some e \<longrightarrow> is_ocr_failure e"
  shows "snd (process_files w source_folder output_folder file_list) =
         snd (process_files (w\<lparr>subprocess_run := \<lambda>cmd. None\<rparr>) source_folder output_folder
                file_list)"
proof (induction file_list)
  case Nil
  then show ?case by (simp add: return_io_def)
next
  case (Cons filename file_list)
  have "\<forall>cmd e. subprocess_run (w\<lparr>subprocess_run := \<lambda>cmd. None\<rparr>) cmd = Some e \<longrightarrow>
          is_ocr_failure e"
    by simp
  then have "snd (process_file (w\<lparr>subprocess_run := \<lambda>cmd. None\<rparr>) source_folder output_folder
                filename) =
             snd (process_file w source_folder output_folder filename)"
    by (simp only: process_file_status [OF assms] process_file_status
        analyze_pdf_pages_ignores_ocr)
  with Cons show ?case
    by (simp add: snd_bind_io split: sum.splits)
qed

lemma process_folder_status:
  assumes "\<forall>cmd e. subprocess_run w cmd = Some e \<longrightarrow> is_ocr_failure e"
  shows "snd (process_folder w source_folder output_folder) =
         snd (process_folder (w\<lparr>subprocess_run := \<lambda>cmd. None\<rparr>) source_folder output_folder)"
  using process_files_status [OF assms]
  by (simp add: process_folder_def snd_bind_io emit_def return_io_def raise_io_def Let_def
      split: sum.splits)

lemma process_file_returns:
  assumes "\<forall>p. (\<exists>e. is_Exception e \<and> PdfReader w p = Inl e) \<or>
               (\<exists>texts. PdfReader w p = opened texts)"
    and "\<forall>cmd e. subprocess_run w cmd = Some e \<longrightarrow> is_ocr_failure e"
  shows "snd (process_file w source_folder output_folder filename) = Inr ()"
proof -
  obtain ps where "snd (analyze_pdf_pages w (path_join source_folder filename)) = Inr ps"
    using analyze_pdf_pages_returns assms(1) by blast
  then show ?thesis
    by (simp add: process_file_status [OF assms(2)])
qed

lemma process_files_returns:
  assumes "\<forall>p. (\<exists>e. is_Exception e \<and> PdfReader w p = Inl e) \<or>
               (\<exists>texts. PdfReader w p = opened texts)"
    and "\<forall>cmd e. subprocess_run w cmd = Some e \<longrightarrow> is_ocr_failure e"
  shows "snd (process_files w source_folder output_folder file_list) = Inr ()"
proof (induction file_list)
  case Nil
  then show ?case by (simp add: return_io_def)
next
  case (Cons filename file_list)
  then show ?case
    by (simp add: snd_bind_io process_file_returns [OF assms])
qed

lemma process_folder_returns:
  assumes "\<forall>p. (\<exists>e. is_Exception e \<and> PdfReader w p = Inl e) \<or>
               (\<exists>texts. PdfReader w p = opened texts)"
    and "\<forall>cmd e. subprocess_run w cmd = Some e \<longrightarrow> is_ocr_failure e"
    and "listdir w source_folder = Inr names"
  shows "snd (process_folder w source_folder output_folder) = Inr ()"
  using assms(3) process_files_returns [OF assms(1,2)]
  by (simp add: process_folder_def emit_def return_io_def Let_def)

text \<open>One round of the batch loop for a file whose OCR call fails.\<close>

lemma process_file_failure:
  assumes "is_ocr_failure e"
    and "snd (analyze_pdf_pages w (path_join source_folder filename)) = Inr pages_to_ocr"
    and "pages_to_ocr \<noteq> []"
    and "subprocess_run w
           (redo_command (path_join source_folder filename) output_folder pages_to_ocr) = Some e"
  shows "process_file w source_folder output_folder filename =
     (fst (analyze_pdf_pages w (path_join source_folder filename)) @
      [Print (''Running command for '' @ basename (path_join source_folder filename) @
              '' on pages: '' @ join_str '','' (map str_nat pages_to_ocr)),
       Run (redo_command (path_join source_folder filename) output_folder pages_to_ocr),
       Print (if is_CalledProcessError e
              then ''ocrmypdf failed for '' @ basename (path_join source_folder filename) @
                   '' with error: '' @ exn_str e
              else ''ocrmypdf command not found. Please ensure it'' @ [CHR 0x27] @
                   ''s installed and in your PATH.''),
       Print (dashes 30)],
      Inr ())"
  by (simp add: process_file_def Let_def bind_io_returns [OF assms(2)]
      run_ocr_for_file_failure [OF assms(3,4,1)] emit_def)

lemma main_announce_prints: "main_announce w = (\<lambda>f. [Print (''  - '' @ f)])"
  by (rule ext) (simp add: main_announce_def)

lemma main_ignores_ocr: "main (w\<lparr>subprocess_run := r\<rparr>) = main w"
  by (simp add: main_def main_announce_prints Let_def split: sum.splits)

text \<open>The whole of \<open>process_folder\<close> around a file whose OCR call fails.\<close>

lemma process_folder_failure:
  assumes "is_ocr_failure e"
    and "isdir w source_folder"
    and "listdir w source_folder = Inr names"
    and "filter (\<lambda>f. endswith f ''.pdf'') names = done @ filename # file_list"
    and "snd (process_files w source_folder output_folder done) = Inr ()"
    and "snd (analyze_pdf_pages w (path_join source_folder filename)) = Inr ps"
    and "ps \<noteq> []"
    and "subprocess_run w (redo_command (path_join source_folder filename) output_folder ps) = Some e"
  shows "process_folder w source_folder output_folder =
      ((if \<not> path_exists w output_folder
        then [Makedirs output_folder,
              Print (''Created output folder: '' @ quoted output_folder)]
        else []) @
       [Print (''Found '' @ str_nat (length (done @ filename # file_list)) @
               '' PDF files to process.''),
        Print (dashes 30)] @
       fst (process_files w source_folder output_folder done) @
       (fst (analyze_pdf_pages w (path_join source_folder filename)) @
      [Print (''Running command for '' @ basename (path_join source_folder filename) @
              '' on pages: '' @ join_str '','' (map str_nat ps)),
       Run (redo_command (path_join source_folder filename) output_folder ps),
       Print (if is_CalledProcessError e
              then ''ocrmypdf failed for '' @ basename (path_join source_folder filename) @
                   '' with error: '' @ exn_str e
              else ''ocrmypdf command not found. Please ensure it'' @ [CHR 0x27] @
                   ''s installed and in your PATH.''),
       Print (dashes 30)]) @
       fst (process_files w source_folder output_folder file_list),
       snd (process_files w source_folder output_folder file_list))"
proof -
  have pf: "process_files w source_folder output_folder (done @ filename # file_list) =
      (fst (process_files w source_folder output_folder done) @
       (fst (analyze_pdf_pages w (path_join source_folder filename)) @
      [Print (''Running command for '' @ basename (path_join source_folder filename) @
              '' on pages: '' @ join_str '','' (map str_nat ps)),
       Run (redo_command (path_join source_folder filename) output_folder ps),
       Print (if is_CalledProcessError e
              then ''ocrmypdf failed for '' @ basename (path_join source_folder filename) @
                   '' with error: '' @ exn_str e
              else ''ocrmypdf command not found. Please ensure it'' @ [CHR 0x27] @
                   ''s installed and in your PATH.''),
       Print (dashes 30)]) @
       fst (process_files w source_folder output_folder file_list),
       snd (process_files w source_folder output_folder file_list))"
    by (simp add: process_files_append bind_io_returns [OF assms(5)]
        process_file_failure [OF assms(1,6,7,8)])
  show ?thesis
    using assms(2,3)
    by (simp add: process_folder_def Let_def emit_def return_io_def assms(4) pf
        del: process_files.simps)
qed

text \<open>
  Claim C6. When the OCR call fails with a non-zero exit status or a missing executable,
  \<open>run_ocr_for_file\<close> makes the one call, prints the failure message and returns, and
  \<open>run_ocr_on_file\<close> makes the one call and returns the error text: the call is not
  repeated and no exception leaves either function. The batch loop and \<open>process_folder\<close>
  go on with the remaining files after the one call and the printed message for the
  failing file. The exit status of \<^verbatim>\<open>check_ocr.py\<close> is the one it has when every OCR call
  succeeds; it is zero when nothing else raises. What \<^verbatim>\<open>ocr.py\<close> does is independent of
  the outcome of OCR calls.
\<close>

theorem ocr_failure_contained:
  assumes "is_ocr_failure e"
  shows
   "(pages_to_ocr \<noteq> [] \<longrightarrow>
    subprocess_run w (redo_command input_file output_folder pages_to_ocr) = Some (CalledProcessError rc err m) \<longrightarrow>
    run_ocr_for_file w input_file output_folder pages_to_ocr =
      ([Print (''Running command for '' @ basename input_file @ '' on pages: '' @
              join_str '','' (map str_nat pages_to_ocr)),
        Run (redo_command input_file output_folder pages_to_ocr),
        Print (''ocrmypdf failed for '' @ basename input_file @ '' with error: '' @ m)],
       Inr ())) \<and>
   (pages_to_ocr \<noteq> [] \<longrightarrow>
    subprocess_run w (redo_command input_file output_folder pages_to_ocr) = Some (FileNotFoundError m) \<longrightarrow>
    run_ocr_for_file w input_file output_folder pages_to_ocr =
      ([Print (''Running command for '' @ basename input_file @ '' on pages: '' @
              join_str '','' (map str_nat pages_to_ocr)),
        Run (redo_command input_file output_folder pages_to_ocr),
        Print (''ocrmypdf command not found. Please ensure it'' @ [CHR 0x27] @
               ''s installed and in your PATH.'')],
       Inr ())) \<and>
   (subprocess_run w (force_command input_file source_dir output_dir languages suffix') = Some (CalledProcessError rc err m) \<longrightarrow>
    run_ocr_on_file w input_file source_dir output_dir languages suffix' =
      ([Print (''[Process '' @ str_nat (getpid w) @ ''] STARTING: OCR for '' @
              quoted input_file),
        Run (force_command input_file source_dir output_dir languages suffix')],
       Inr (Some
         (CHR 0x0A # replicate 8 CHR '' '' @
          ''[Process '' @ str_nat (getpid w) @ ''] FAILED to process '' @ quoted input_file @ ''.'' @
          CHR 0x0A # replicate 8 CHR '' '' @
          ''ocrmypdf returned an error (exit code '' @ str_int rc @ '').'' @
          CHR 0x0A # replicate 8 CHR '' '' @ ''--- OCRmyPDF Error Output ---'' @
          CHR 0x0A # replicate 8 CHR '' '' @ strip_str err @
          CHR 0x0A # replicate 8 CHR '' '' @ ''-----------------------------'' @
          CHR 0x0A # replicate 8 CHR '' '')))) \<and>
   (subprocess_run w (force_command input_file source_dir output_dir languages suffix') = Some (FileNotFoundError m) \<longrightarrow>
    run_ocr_on_file w input_file source_dir output_dir languages suffix' =
      ([Print (''[Process '' @ str_nat (getpid w) @ ''] STARTING: OCR for '' @
              quoted input_file),
        Run (force_command input_file source_dir output_dir languages suffix')],
       Inr (Some
         (''[Process '' @ str_nat (getpid w) @ ''] FATAL ERROR: The '' @ quoted ''ocrmypdf'' @
          '' command was not found. Please ensure it is installed and accessible in your system'' @
          [CHR 0x27] @ ''s PATH.'')))) \<and>
   (snd (analyze_pdf_pages w (path_join source_folder filename)) = Inr ps \<longrightarrow>
    ps \<noteq> [] \<longrightarrow>
    subprocess_run w (redo_command (path_join source_folder filename) output_folder ps) = Some e \<longrightarrow>
    process_files w source_folder output_folder (filename # file_list) =
      ((fst (analyze_pdf_pages w (path_join source_folder filename)) @
      [Print (''Running command for '' @ basename (path_join source_folder filename) @
              '' on pages: '' @ join_str '','' (map str_nat ps)),
       Run (redo_command (path_join source_folder filename) output_folder ps),
       Print (if is_CalledProcessError e
              then ''ocrmypdf failed for '' @ basename (path_join source_folder filename) @
                   '' with error: '' @ exn_str e
              else ''ocrmypdf command not found. Please ensure it'' @ [CHR 0x27] @
                   ''s installed and in your PATH.''),
       Print (dashes 30)]) @
       fst (process_files w source_folder output_folder file_list),
       snd (process_files w source_folder output_folder file_list))) \<and>
   (isdir w source_folder \<longrightarrow>
    listdir w source_folder = Inr names \<longrightarrow>
    filter (\<lambda>f. endswith f ''.pdf'') names = done @ filename # file_list \<longrightarrow>
    snd (process_files w source_folder output_folder done) = Inr () \<longrightarrow>
    snd (analyze_pdf_pages w (path_join source_folder filename)) = Inr ps \<longrightarrow>
    ps \<noteq> [] \<longrightarrow>
    subprocess_run w (redo_command (path_join source_folder filename) output_folder ps) = Some e \<longrightarrow>
    process_folder w source_folder output_folder =
      ((if \<not> path_exists w output_folder
        then [Makedirs output_folder,
              Print (''Created output folder: '' @ quoted output_folder)]
        else []) @
       [Print (''Found '' @ str_nat (length (done @ filename # file_list)) @
               '' PDF files to process.''),
        Print (dashes 30)] @
       fst (process_files w source_folder output_folder done) @
       (fst (analyze_pdf_pages w (path_join source_folder filename)) @
      [Print (''Running command for '' @ basename (path_join source_folder filename) @
              '' on pages: '' @ join_str '','' (map str_nat ps)),
       Run (redo_command (path_join source_folder filename) output_folder ps),
       Print (if is_CalledProcessError e
              then ''ocrmypdf failed for '' @ basename (path_join source_folder filename) @
                   '' with error: '' @ exn_str e
              else ''ocrmypdf command not found. Please ensure it'' @ [CHR 0x27] @
                   ''s installed and in your PATH.''),
       Print (dashes 30)]) @
       fst (process_files w source_folder output_folder file_list),
       snd (process_files w source_folder output_folder file_list))) \<and>
   ((\<forall>cmd e'. subprocess_run w cmd = Some e' \<longrightarrow> is_ocr_failure e') \<longrightarrow>
    snd (check_ocr_script w) = snd (check_ocr_script (w\<lparr>subprocess_run := \<lambda>cmd. None\<rparr>))) \<and>
   ((\<forall>cmd e'. subprocess_run w cmd = Some e' \<longrightarrow> is_ocr_failure e') \<longrightarrow>
    (\<forall>p. (\<exists>e'. is_Exception e' \<and> PdfReader w p = Inl e') \<or>
         (\<exists>texts. PdfReader w p = opened texts)) \<longrightarrow>
    listdir w ''archive'' = Inr names \<longrightarrow>
    snd (check_ocr_script w) = Exit_zero) \<and>
   ocr_script (w\<lparr>subprocess_run := r\<rparr>) = ocr_script w"
proof -
  have c1:
   "(pages_to_ocr \<noteq> [] \<longrightarrow>
    subprocess_run w (redo_command input_file output_folder pages_to_ocr) = Some (CalledProcessError rc err m) \<longrightarrow>
    run_ocr_for_file w input_file output_folder pages_to_ocr =
      ([Print (''Running command for '' @ basename input_file @ '' on pages: '' @
              join_str '','' (map str_nat pages_to_ocr)),
        Run (redo_command input_file output_folder pages_to_ocr),
        Print (''ocrmypdf failed for '' @ basename input_file @ '' with error: '' @ m)],
       Inr ()))"
    by (simp add: run_ocr_for_file_failure is_ocr_failure_def)
  have c2:
   "(pages_to_ocr \<noteq> [] \<longrightarrow>
    subprocess_run w (redo_command input_file output_folder pages_to_ocr) = Some (FileNotFoundError m) \<longrightarrow>
    run_ocr_for_file w input_file output_folder pages_to_ocr =
      ([Print (''Running command for '' @ basename input_file @ '' on pages: '' @
              join_str '','' (map str_nat pages_to_ocr)),
        Run (redo_command input_file output_folder pages_to_ocr),
        Print (''ocrmypdf command not found. Please ensure it'' @ [CHR 0x27] @
               ''s installed and in your PATH.'')],
       Inr ()))"
    by (simp add: run_ocr_for_file_failure is_ocr_failure_def)
  have c3:
   "(subprocess_run w (force_command input_file source_dir output_dir languages suffix') = Some (CalledProcessError rc err m) \<longrightarrow>
    run_ocr_on_file w input_file source_dir output_dir languages suffix' =
      ([Print (''[Process '' @ str_nat (getpid w) @ ''] STARTING: OCR for '' @
              quoted input_file),
        Run (force_command input_file source_dir output_dir languages suffix')],
       Inr (Some
         (CHR 0x0A # replicate 8 CHR '' '' @
          ''[Process '' @ str_nat (getpid w) @ ''] FAILED to process '' @ quoted input_file @ ''.'' @
          CHR 0x0A # replicate 8 CHR '' '' @
          ''ocrmypdf returned an error (exit code '' @ str_int rc @ '').'' @
          CHR 0x0A # replicate 8 CHR '' '' @ ''--- OCRmyPDF Error Output ---'' @
          CHR 0x0A # replicate 8 CHR '' '' @ strip_str err @
          CHR 0x0A # replicate 8 CHR '' '' @ ''-----------------------------'' @
          CHR 0x0A # replicate 8 CHR '' ''))))"
    by (simp add: run_ocr_on_file_exit_status)
  have c4:
   "(subprocess_run w (force_command input_file source_dir output_dir languages suffix') = Some (FileNotFoundError m) \<longrightarrow>
    run_ocr_on_file w input_file source_dir output_dir languages suffix' =
      ([Print (''[Process '' @ str_nat (getpid w) @ ''] STARTING: OCR for '' @
              quoted input_file),
        Run (force_command input_file source_dir output_dir languages suffix')],
       Inr (Some
         (''[Process '' @ str_nat (getpid w) @ ''] FATAL ERROR: The '' @ quoted ''ocrmypdf'' @
          '' command was not found. Please ensure it is installed and accessible in your system'' @
          [CHR 0x27] @ ''s PATH.''))))"
    by (simp add: run_ocr_on_file_missing)
  have c5:
   "(snd (analyze_pdf_pages w (path_join source_folder filename)) = Inr ps \<longrightarrow>
    ps \<noteq> [] \<longrightarrow>
    subprocess_run w (redo_command (path_join source_folder filename) output_folder ps) = Some e \<longrightarrow>
    process_files w source_folder output_folder (filename # file_list) =
      ((fst (analyze_pdf_pages w (path_join source_folder filename)) @
      [Print (''Running command for '' @ basename (path_join source_folder filename) @
              '' on pages: '' @ join_str '','' (map str_nat ps)),
       Run (redo_command (path_join source_folder filename) output_folder ps),
       Print (if is_CalledProcessError e
              then ''ocrmypdf failed for '' @ basename (path_join source_folder filename) @
                   '' with error: '' @ exn_str e
              else ''ocrmypdf command not found. Please ensure it'' @ [CHR 0x27] @
                   ''s installed and in your PATH.''),
       Print (dashes 30)]) @
       fst (process_files w source_folder output_folder file_list),
       snd (process_files w source_folder output_folder file_list)))"
  proof (intro impI)
    assume an: "snd (analyze_pdf_pages w (path_join source_folder filename)) = Inr ps"
      and ne: "ps \<noteq> []"
      and run: "subprocess_run w (redo_command (path_join source_folder filename) output_folder ps) = Some e"
    show "process_files w source_folder output_folder (filename # file_list) =
      ((fst (analyze_pdf_pages w (path_join source_folder filename)) @
      [Print (''Running command for '' @ basename (path_join source_folder filename) @
              '' on pages: '' @ join_str '','' (map str_nat ps)),
       Run (redo_command (path_join source_folder filename) output_folder ps),
       Print (if is_CalledProcessError e
              then ''ocrmypdf failed for '' @ basename (path_join source_folder filename) @
                   '' with error: '' @ exn_str e
              else ''ocrmypdf command not found. Please ensure it'' @ [CHR 0x27] @
                   ''s installed and in your PATH.''),
       Print (dashes 30)]) @
       fst (process_files w source_folder output_folder file_list),
       snd (process_files w source_folder output_folder file_list))"
      by (simp add: process_file_failure [OF assms an ne run])
  qed
  have c6:
   "(isdir w source_folder \<longrightarrow>
    listdir w source_folder = Inr names \<longrightarrow>
    filter (\<lambda>f. endswith f ''.pdf'') names = done @ filename # file_list \<longrightarrow>
    snd (process_files w source_folder output_folder done) = Inr () \<longrightarrow>
    snd (analyze_pdf_pages w (path_join source_folder filename)) = Inr ps \<longrightarrow>
    ps \<noteq> [] \<longrightarrow>
    subprocess_run w (redo_command (path_join source_folder filename) output_folder ps) = Some e \<longrightarrow>
    process_folder w source_folder output_folder =
      ((if \<not> path_exists w output_folder
        then [Makedirs output_folder,
              Print (''Created output folder: '' @ quoted output_folder)]
        else []) @
       [Print (''Found '' @ str_nat (length (done @ filename # file_list)) @
               '' PDF files to process.''),
        Print (dashes 30)] @
       fst (process_files w source_folder output_folder done) @
       (fst (analyze_pdf_pages w (path_join source_folder filename)) @
      [Print (''Running command for '' @ basename (path_join source_folder filename) @
              '' on pages: '' @ join_str '','' (map str_nat ps)),
       Run (redo_command (path_join source_folder filename) output_folder ps),
       Print (if is_CalledProcessError e
              then ''ocrmypdf failed for '' @ basename (path_join source_folder filename) @
                   '' with error: '' @ exn_str e
              else ''ocrmypdf command not found. Please ensure it'' @ [CHR 0x27] @
                   ''s installed and in your PATH.''),
       Print (dashes 30)]) @
       fst (process_files w source_folder output_folder file_list),
       snd (process_files w source_folder output_folder file_list)))"
    by (intro impI) (rule process_folder_failure [OF assms])
  have c7:
   "((\<forall>cmd e'. subprocess_run w cmd = Some e' \<longrightarrow> is_ocr_failure e') \<longrightarrow>
    snd (check_ocr_script w) = snd (check_ocr_script (w\<lparr>subprocess_run := \<lambda>cmd. None\<rparr>)))"
  proof
    assume a: "\<forall>cmd e'. subprocess_run w cmd = Some e' \<longrightarrow> is_ocr_failure e'"
    show "snd (check_ocr_script w) =
          snd (check_ocr_script (w\<lparr>subprocess_run := \<lambda>cmd. None\<rparr>))"
      unfolding check_ocr_script_def run_script_def snd_conv
      by (simp only: process_folder_status [OF a])
  qed
  have c8:
   "((\<forall>cmd e'. subprocess_run w cmd = Some e' \<longrightarrow> is_ocr_failure e') \<longrightarrow>
    (\<forall>p. (\<exists>e'. is_Exception e' \<and> PdfReader w p = Inl e') \<or>
         (\<exists>texts. PdfReader w p = opened texts)) \<longrightarrow>
    listdir w ''archive'' = Inr names \<longrightarrow>
    snd (check_ocr_script w) = Exit_zero)"
  proof (intro impI)
    assume a: "\<forall>cmd e'. subprocess_run w cmd = Some e' \<longrightarrow> is_ocr_failure e'"
      and b: "\<forall>p. (\<exists>e'. is_Exception e' \<and> PdfReader w p = Inl e') \<or>
         (\<exists>texts. PdfReader w p = opened texts)"
      and c: "listdir w ''archive'' = Inr names"
    show "snd (check_ocr_script w) = Exit_zero"
      by (simp add: check_ocr_script_def run_script_def process_folder_returns [OF b a c])
  qed
  have c9:
   "ocr_script (w\<lparr>subprocess_run := r\<rparr>) = ocr_script w"
    by (simp add: ocr_script_def main_ignores_ocr)
  show ?thesis
    by (rule conjI [OF c1 conjI [OF c2 conjI [OF c3 conjI [OF c4 conjI [OF c5
        conjI [OF c6 conjI [OF c7 conjI [OF c8 c9]]]]]]]])
qed

lemma demo_failure: "subprocess_run demo_world cmd = Some (CalledProcessError 2 ''  no input  '' ''exit status 2'')"
  by (simp add: demo_world_def)

lemma demo_listdir: "listdir demo_world ''archive'' = Inr demo_listing"
  by (simp add: demo_world_def)

lemma demo_a_result: "snd (analyze_pdf_pages demo_world (path_join ''archive'' ''a.pdf'')) = Inr [1, 3]"
  using analyze_pdf_pages_result [OF demo_a]
  by (simp add: path_join_archive strip_replicate isspace_def THRESHOLD_def)

lemma demo_missing:
  "subprocess_run missing_world cmd = Some (FileNotFoundError ''[Errno 2] No such file or directory'')"
  by (simp add: missing_world_def)

lemma demo_readable:
  "\<forall>p. (\<exists>e'. is_Exception e' \<and> PdfReader demo_world p = Inl e') \<or>
       (\<exists>texts. PdfReader demo_world p = opened texts)"
  by (auto simp: demo_world_def)

lemma demo_only_ocr_fails:
  "\<forall>cmd e'. subprocess_run demo_world cmd = Some e' \<longrightarrow> is_ocr_failure e'"
  by (auto simp: demo_world_def is_ocr_failure_def)

lemma demo_pdf_files:
  "filter (\<lambda>f. endswith f ''.pdf'') demo_listing = [] @ ''a.pdf'' # [''b.pdf'', ''c.pdf'', ''a_ocr.pdf'']"
  by code_simp

lemma demo_commands:
  "basename ''archive/a.pdf'' = ''a.pdf''"
  "join_str '','' (map str_nat [1, 3]) = ''1,3''"
  "redo_command ''archive/a.pdf'' ''ocr'' [1, 3] =
     [''ocrmypdf'', ''-l'', ''ell+eng+tur'', ''--redo-ocr'', ''--pages'', ''1,3'',
      ''archive/a.pdf'', ''ocr/a.pdf'']"
  "force_command ''a.pdf'' ''archive'' ''ocr'' ''eng+ell+tur'' ''_ocr'' =
     [''ocrmypdf'', ''-l'', ''eng+ell+tur'', ''--force-ocr'', ''archive/a.pdf'', ''ocr/a_ocr.pdf'']"
  "str_nat 4242 = ''4242''"
  by code_simp+

text \<open>
  The run where the OCR tool exits with status 2 on \<^verbatim>\<open>a.pdf\<close>, and the run where its
  executable is missing.
\<close>

theorem ocr_failure_contained_witness:
  "is_ocr_failure (CalledProcessError 2 ''  no input  '' ''exit status 2'') \<and>
   is_ocr_failure (FileNotFoundError ''[Errno 2] No such file or directory'') \<and>
   [1, 3] \<noteq> ([] :: nat list) \<and>
   subprocess_run demo_world (redo_command ''archive/a.pdf'' ''ocr'' [1, 3]) =
     Some (CalledProcessError 2 ''  no input  '' ''exit status 2'') \<and>
   subprocess_run missing_world (redo_command ''archive/a.pdf'' ''ocr'' [1, 3]) =
     Some (FileNotFoundError ''[Errno 2] No such file or directory'') \<and>
   run_ocr_for_file demo_world ''archive/a.pdf'' ''ocr'' [1, 3] =
     ([Print ''Running command for a.pdf on pages: 1,3'',
       Run [''ocrmypdf'', ''-l'', ''ell+eng+tur'', ''--redo-ocr'', ''--pages'', ''1,3'',
            ''archive/a.pdf'', ''ocr/a.pdf''],
       Print ''ocrmypdf failed for a.pdf with error: exit status 2''], Inr ()) \<and>
   run_ocr_for_file missing_world ''archive/a.pdf'' ''ocr'' [1, 3] =
     ([Print ''Running command for a.pdf on pages: 1,3'',
       Run [''ocrmypdf'', ''-l'', ''ell+eng+tur'', ''--redo-ocr'', ''--pages'', ''1,3'',
            ''archive/a.pdf'', ''ocr/a.pdf''],
       Print (''ocrmypdf command not found. Please ensure it'' @ [CHR 0x27] @
              ''s installed and in your PATH.'')], Inr ()) \<and>
   snd (run_ocr_on_file demo_world ''a.pdf'' ''archive'' ''ocr'' ''eng+ell+tur'' ''_ocr'') =
     Inr (Some
       (CHR 0x0A # replicate 8 CHR '' '' @
        ''[Process 4242] FAILED to process '' @ quoted ''a.pdf'' @ ''.'' @
        CHR 0x0A # replicate 8 CHR '' '' @ ''ocrmypdf returned an error (exit code 2).'' @
        CHR 0x0A # replicate 8 CHR '' '' @ ''--- OCRmyPDF Error Output ---'' @
        CHR 0x0A # replicate 8 CHR '' '' @ ''no input'' @
        CHR 0x0A # replicate 8 CHR '' '' @ ''-----------------------------'' @
        CHR 0x0A # replicate 8 CHR '' '')) \<and>
   snd (run_ocr_on_file missing_world ''a.pdf'' ''archive'' ''ocr'' ''eng+ell+tur'' ''_ocr'') =
     Inr (Some
       (''[Process 4242] FATAL ERROR: The '' @ quoted ''ocrmypdf'' @
        '' command was not found. Please ensure it is installed and accessible in your system'' @
        [CHR 0x27] @ ''s PATH.'')) \<and>
   snd (analyze_pdf_pages demo_world (path_join ''archive'' ''a.pdf'')) = Inr [1, 3] \<and>
   isdir demo_world ''archive'' \<and>
   listdir demo_world ''archive'' = Inr demo_listing \<and>
   filter (\<lambda>f. endswith f ''.pdf'') demo_listing =
     [] @ ''a.pdf'' # [''b.pdf'', ''c.pdf'', ''a_ocr.pdf''] \<and>
   snd (process_files demo_world ''archive'' ''ocr'' [''a.pdf'', ''c.pdf'']) =
     snd (process_files demo_world ''archive'' ''ocr'' [''c.pdf'']) \<and>
   snd (process_folder demo_world ''archive'' ''ocr'') =
     snd (process_files demo_world ''archive'' ''ocr'' [''b.pdf'', ''c.pdf'', ''a_ocr.pdf'']) \<and>
   snd (check_ocr_script demo_world) =
     snd (check_ocr_script (demo_world\<lparr>subprocess_run := \<lambda>cmd. None\<rparr>)) \<and>
   snd (check_ocr_script demo_world) = Exit_zero"
proof -
  let ?e = "CalledProcessError 2 ''  no input  '' ''exit status 2''"
  let ?m = "FileNotFoundError ''[Errno 2] No such file or directory''"
  have h: "is_ocr_failure ?e" and h': "is_ocr_failure ?m"
    by (simp_all add: is_ocr_failure_def)
  have ne: "[1, 3] \<noteq> ([] :: nat list)" by simp
  have p: "path_join ''archive'' ''a.pdf'' = ''archive/a.pdf''" by (simp add: path_join_archive)
  have pid: "getpid demo_world = 4242" "getpid missing_world = 4242"
    by (simp_all add: missing_world_def demo_world_def)
  have err: "strip_str ''  no input  '' = ''no input''" by code_simp
  have rc: "str_int 2 = ''2''" by code_simp
  have dir: "isdir demo_world ''archive''" by (simp add: demo_world_def)
  have nil: "snd (process_files demo_world ''archive'' ''ocr'' []) = Inr ()"
    by (simp add: return_io_def)
  note t = ocr_failure_contained [OF h, where w = demo_world and pages_to_ocr = "[1, 3]"
      and input_file = "''archive/a.pdf''" and output_folder = "''ocr''"
      and rc = 2 and err = "''  no input  ''" and m = "''exit status 2''"
      and source_folder = "''archive''" and filename = "''a.pdf''" and ps = "[1, 3]"
      and names = demo_listing and ?done = "[]"]
  note u = ocr_failure_contained [OF h', where w = missing_world and pages_to_ocr = "[1, 3]"
      and input_file = "''archive/a.pdf''" and output_folder = "''ocr''"
      and m = "''[Errno 2] No such file or directory''"]
  have c1: "run_ocr_for_file demo_world ''archive/a.pdf'' ''ocr'' [1, 3] =
     ([Print ''Running command for a.pdf on pages: 1,3'',
       Run [''ocrmypdf'', ''-l'', ''ell+eng+tur'', ''--redo-ocr'', ''--pages'', ''1,3'',
            ''archive/a.pdf'', ''ocr/a.pdf''],
       Print ''ocrmypdf failed for a.pdf with error: exit status 2''], Inr ())"
    using t [THEN conjunct1, rule_format, OF ne demo_failure]
    by (simp only: demo_commands) simp
  have c2: "run_ocr_for_file missing_world ''archive/a.pdf'' ''ocr'' [1, 3] =
     ([Print ''Running command for a.pdf on pages: 1,3'',
       Run [''ocrmypdf'', ''-l'', ''ell+eng+tur'', ''--redo-ocr'', ''--pages'', ''1,3'',
            ''archive/a.pdf'', ''ocr/a.pdf''],
       Print (''ocrmypdf command not found. Please ensure it'' @ [CHR 0x27] @
              ''s installed and in your PATH.'')], Inr ())"
    using u [THEN conjunct2, THEN conjunct1, rule_format, OF ne demo_missing]
    by (simp only: demo_commands) simp
  have c3: "snd (run_ocr_on_file demo_world ''a.pdf'' ''archive'' ''ocr'' ''eng+ell+tur'' ''_ocr'') =
     Inr (Some
       (CHR 0x0A # replicate 8 CHR '' '' @
        ''[Process 4242] FAILED to process '' @ quoted ''a.pdf'' @ ''.'' @
        CHR 0x0A # replicate 8 CHR '' '' @ ''ocrmypdf returned an error (exit code 2).'' @
        CHR 0x0A # replicate 8 CHR '' '' @ ''--- OCRmyPDF Error Output ---'' @
        CHR 0x0A # replicate 8 CHR '' '' @ ''no input'' @
        CHR 0x0A # replicate 8 CHR '' '' @ ''-----------------------------'' @
        CHR 0x0A # replicate 8 CHR '' ''))"
    using ocr_failure_contained [OF h, where w = demo_world and input_file = "''a.pdf''"
      and source_dir = "''archive''" and output_dir = "''ocr''" and languages = "''eng+ell+tur''"
      and suffix' = "''_ocr''" and rc = 2 and err = "''  no input  ''" and m = "''exit status 2''",
      THEN conjunct2, THEN conjunct2, THEN conjunct1, rule_format, OF demo_failure]
    by (simp add: pid err rc demo_commands)
  have c4: "snd (run_ocr_on_file missing_world ''a.pdf'' ''archive'' ''ocr'' ''eng+ell+tur'' ''_ocr'') =
     Inr (Some
       (''[Process 4242] FATAL ERROR: The '' @ quoted ''ocrmypdf'' @
        '' command was not found. Please ensure it is installed and accessible in your system'' @
        [CHR 0x27] @ ''s PATH.''))"
    using ocr_failure_contained [OF h', where w = missing_world and input_file = "''a.pdf''"
      and source_dir = "''archive''" and output_dir = "''ocr''" and languages = "''eng+ell+tur''"
      and suffix' = "''_ocr''" and m = "''[Errno 2] No such file or directory''",
      THEN conjunct2, THEN conjunct2, THEN conjunct2, THEN conjunct1, rule_format, OF demo_missing]
    by (simp add: pid demo_commands)
  have c5: "snd (process_files demo_world ''archive'' ''ocr'' [''a.pdf'', ''c.pdf'']) =
     snd (process_files demo_world ''archive'' ''ocr'' [''c.pdf''])"
    using t [where file_list = "[''c.pdf'']", THEN conjunct2, THEN conjunct2, THEN conjunct2,
      THEN conjunct2, THEN conjunct1, rule_format, OF demo_a_result ne demo_failure]
    by (simp del: process_files.simps)
  have c6: "snd (process_folder demo_world ''archive'' ''ocr'') =
     snd (process_files demo_world ''archive'' ''ocr'' [''b.pdf'', ''c.pdf'', ''a_ocr.pdf''])"
    using t [where file_list = "[''b.pdf'', ''c.pdf'', ''a_ocr.pdf'']", THEN conjunct2,
      THEN conjunct2, THEN conjunct2, THEN conjunct2, THEN conjunct2, THEN conjunct1, rule_format,
      OF dir demo_listdir demo_pdf_files nil demo_a_result ne demo_failure]
    by (simp del: process_files.simps)
  have c7: "snd (check_ocr_script demo_world) =
     snd (check_ocr_script (demo_world\<lparr>subprocess_run := \<lambda>cmd. None\<rparr>))"
    using t [THEN conjunct2, THEN conjunct2, THEN conjunct2, THEN conjunct2, THEN conjunct2,
      THEN conjunct2, THEN conjunct1] demo_only_ocr_fails
    by blast
  have c8: "snd (check_ocr_script demo_world) = Exit_zero"
    using t [THEN conjunct2, THEN conjunct2, THEN conjunct2, THEN conjunct2, THEN conjunct2,
      THEN conjunct2, THEN conjunct2, THEN conjunct1] demo_only_ocr_fails demo_readable
      demo_listdir
    by blast
  show ?thesis
    by (intro conjI) (fact h h' ne demo_failure demo_missing c1 c2 c3 c4 demo_a_result dir
        demo_listdir demo_pdf_files c5 c6 c7 c8)+
qed

lemma main_trace:
  "listdir w SOURCE_DIRECTORY = Inr all_files \<Longrightarrow> files_to_process all_files \<noteq> [] \<Longrightarrow>
   main w =
     ([Print (''Found '' @ str_nat (length (files_to_process all_files)) @
              '' PDF file(s) to process:'')] @
      map (\<lambda>f. Print (''  - '' @ f)) (files_to_process all_files) @
      [Print (dashes 40)], Inr ())"
  by (simp add: main_def main_announce_prints Let_def emit_def concat_map_singleton)

lemma main_prints: "ev \<in> set (fst (main w)) \<Longrightarrow> is_Print ev"
  by (auto simp add: main_def main_announce_prints Let_def emit_def raise_io_def
      split: sum.splits if_splits)

lemma demo_to_process: "files_to_process demo_listing = [''a.pdf'', ''b.pdf'', ''c.pdf'', ''D.PDF'']"
  by code_simp

lemma demo_listdir_source: "listdir demo_world SOURCE_DIRECTORY = Inr demo_listing"
  by (simp add: demo_world_def SOURCE_DIRECTORY_def)

text \<open>
  Claim C7 states that \<open>main\<close> constructs a multiprocessing pool. It does not: on the
  listing of the concrete run, which has four files to process, no pool is created.
\<close>

theorem no_pool_counterexample:
  "listdir demo_world SOURCE_DIRECTORY = Inr demo_listing \<and>
   files_to_process demo_listing = [''a.pdf'', ''b.pdf'', ''c.pdf'', ''D.PDF''] \<and>
   PoolCreate \<notin> set (fst (main demo_world))"
  using main_prints [of PoolCreate demo_world] demo_listdir_source demo_to_process by auto

text \<open>
  Claim C7, amended. For every directory listing, \<open>main\<close> creates no multiprocessing
  pool: all it does is print. For each selected file it prints the name (and builds a
  \<^verbatim>\<open>functools.partial\<close> of \<open>run_ocr_on_file\<close> that it drops); \<open>run_ocr_on_file\<close> is never
  invoked, no subprocess is started, and what \<open>main\<close> does is independent of how an OCR
  call would end.
\<close>

theorem main_only_prints:
  "(\<forall>ev\<in>set (fst (main w)). is_Print ev) \<and>
   PoolCreate \<notin> set (fst (main w)) \<and>
   commands_run (fst (main w)) = [] \<and>
   main (w\<lparr>subprocess_run := r\<rparr>) = main w \<and>
   (listdir w SOURCE_DIRECTORY = Inr all_files \<longrightarrow> files_to_process all_files \<noteq> [] \<longrightarrow>
      main w =
        ([Print (''Found '' @ str_nat (length (files_to_process all_files)) @
                 '' PDF file(s) to process:'')] @
         map (\<lambda>f. Print (''  - '' @ f)) (files_to_process all_files) @
         [Print (dashes 40)], Inr ()))"
proof -
  have pr: "\<forall>ev\<in>set (fst (main w)). is_Print ev"
    using main_prints by blast
  then have np: "PoolCreate \<notin> set (fst (main w))"
    by fastforce
  have "commands_run evs = []" if "\<forall>ev\<in>set evs. is_Print ev" for evs
    using that by (induction evs rule: commands_run.induct) simp_all
  with pr have nr: "commands_run (fst (main w)) = []"
    by blast
  from pr np nr main_ignores_ocr main_trace show ?thesis by blast
qed

text \<open>
  The run on the concrete listing: six printed lines and no subprocess.
\<close>

theorem main_only_prints_witness:
  "listdir demo_world SOURCE_DIRECTORY = Inr demo_listing \<and>
   files_to_process demo_listing \<noteq> [] \<and>
   main demo_world =
     ([Print ''Found 4 PDF file(s) to process:'', Print ''  - a.pdf'', Print ''  - b.pdf'',
       Print ''  - c.pdf'', Print ''  - D.PDF'', Print (dashes 40)], Inr ()) \<and>
   commands_run (fst (main demo_world)) = []"
proof -
  have ne: "files_to_process demo_listing \<noteq> []"
    by (simp add: demo_to_process)
  have s: "str_nat (Suc (Suc (Suc (Suc 0)))) = ''4''" by code_simp
  from main_only_prints [of demo_world _ demo_listing] demo_listdir_source ne
  have "main demo_world =
        ([Print (''Found '' @ str_nat (length (files_to_process demo_listing)) @
                 '' PDF file(s) to process:'')] @
         map (\<lambda>f. Print (''  - '' @ f)) (files_to_process demo_listing) @
         [Print (dashes 40)], Inr ())"
    and "commands_run (fst (main demo_world)) = []"
    by blast+
  then show ?thesis
    using demo_listdir_source ne by (simp add: demo_to_process s)
qed

section \<open>The directory scan and the command lines\<close>

lemma endswith_iff_suffix: "endswith s suf \<longleftrightarrow> suffix suf s"
proof
  assume "endswith s suf"
  then have "s = take (length s - length suf) s @ suf"
    by (metis append_take_drop_id endswith_def)
  then show "suffix suf s"
    by (rule suffixI)
next
  assume "suffix suf s"
  then obtain zs where "s = zs @ suf"
    by (auto simp: suffix_def)
  then show "endswith s suf"
    by (simp add: endswith_def)
qed

lemma lower_append: "lower (a @ b) = lower a @ lower b"
  by (simp add: lower_def)

lemma lower_output_suffix: "lower (OUTPUT_SUFFIX @ ''.pdf'') = ''_ocr.pdf''"
  by code_simp

lemma files_to_process_suffix:
  "files_to_process all_files =
     filter (\<lambda>f. suffix ''.pdf'' (lower f) \<and> \<not> suffix ''_ocr.pdf'' (lower f)) all_files"
  by (simp add: files_to_process_def OUTPUT_SUFFIX_def endswith_iff_suffix)

text \<open>
  Claim C8. The directory scan of \<open>main\<close> keeps, in listing order, exactly the names whose
  lower-cased form ends with \<^verbatim>\<open>.pdf\<close> and does not end with \<^verbatim>\<open>_ocr.pdf\<close>. So no name with
  the output suffix is in the work list; in particular no output name that
  \<open>run_ocr_on_file\<close> forms with the configured suffix is.
\<close>

theorem files_to_process_selects:
  "files_to_process all_files =
     filter (\<lambda>f. suffix ''.pdf'' (lower f) \<and> \<not> suffix ''_ocr.pdf'' (lower f)) all_files \<and>
   (\<forall>f. f \<in> set (files_to_process all_files) \<longleftrightarrow>
        f \<in> set all_files \<and> suffix ''.pdf'' (lower f) \<and> \<not> suffix ''_ocr.pdf'' (lower f)) \<and>
   (\<forall>f. suffix ''_ocr.pdf'' (lower f) \<longrightarrow> f \<notin> set (files_to_process all_files)) \<and>
   (\<forall>input_file.
      fst (splitext input_file) @ OUTPUT_SUFFIX @ ''.pdf'' \<notin> set (files_to_process all_files))"
proof -
  have "suffix ''_ocr.pdf'' (lower (stem @ OUTPUT_SUFFIX @ ''.pdf''))" for stem
    by (simp only: lower_append [of stem] lower_output_suffix suffix_appendI suffix_order.refl)
  then show ?thesis
    by (simp add: files_to_process_suffix)
qed

text \<open>
  The concrete listing: \<^verbatim>\<open>a_ocr.pdf\<close>, the output name for \<^verbatim>\<open>a.pdf\<close>, is listed and not selected.
\<close>

theorem files_to_process_selects_witness:
  "files_to_process demo_listing = [''a.pdf'', ''b.pdf'', ''c.pdf'', ''D.PDF''] \<and>
   suffix ''_ocr.pdf'' (lower ''a_ocr.pdf'') \<and>
   ''a_ocr.pdf'' \<in> set demo_listing \<and>
   ''a_ocr.pdf'' \<notin> set (files_to_process demo_listing) \<and>
   fst (splitext ''a.pdf'') @ OUTPUT_SUFFIX @ ''.pdf'' = ''a_ocr.pdf''"
proof -
  have e: "endswith (lower ''a_ocr.pdf'') ''_ocr.pdf''" by code_simp
  then have s: "suffix ''_ocr.pdf'' (lower ''a_ocr.pdf'')"
    by (simp only: endswith_iff_suffix)
  have m: "''a_ocr.pdf'' \<in> set demo_listing" by (simp add: demo_listing_def)
  have o: "fst (splitext ''a.pdf'') @ OUTPUT_SUFFIX @ ''.pdf'' = ''a_ocr.pdf''" by code_simp
  from files_to_process_selects [of demo_listing] s
  have "''a_ocr.pdf'' \<notin> set (files_to_process demo_listing)" by blast
  with demo_to_process s m o show ?thesis by blast
qed

lemma path_join_cases:
  "path_join a b = b \<and> startswith b ''/'' \<or> path_join a b = a @ b \<or>
   path_join a b = a @ ''/'' @ b"
  by (simp add: path_join_def)

lemma no_pages_option_in_force_command:
  "''--pages'' \<notin> set (force_command input_file SOURCE_DIRECTORY OUTPUT_DIRECTORY LANGUAGES OUTPUT_SUFFIX)"
proof -
  have "''--pages'' \<noteq> path_join ''archive'' b" for b
    using path_join_cases [of "''archive''" b] by (auto simp: startswith_def)
  moreover have "''--pages'' \<noteq> path_join ''ocr'' (stem @ ''_ocr.pdf'')" for stem
    using path_join_cases [of "''ocr''" "stem @ ''_ocr.pdf''"]
    by (auto simp: startswith_def dest: arg_cong [where f = last])
  ultimately show ?thesis
    by (simp add: force_command_def Let_def SOURCE_DIRECTORY_def OUTPUT_DIRECTORY_def
        LANGUAGES_def OUTPUT_SUFFIX_def)
qed

text \<open>
  Claim C9. The one command of \<open>run_ocr_for_file\<close> (incremental mode) is \<^verbatim>\<open>ocrmypdf\<close> with the
  language codes, \<^verbatim>\<open>--redo-ocr\<close>, and \<^verbatim>\<open>--pages\<close> with the comma-joined page list; the
  one command of \<open>run_ocr_on_file\<close> (whole-file mode) is \<^verbatim>\<open>ocrmypdf\<close> with the language
  codes and \<^verbatim>\<open>--force-ocr\<close>, and with the configured constants none of its arguments is
  \<^verbatim>\<open>--pages\<close>. Both end with the input path followed by the output path.
\<close>

theorem ocr_command_lines:
  "(pages_to_ocr \<noteq> [] \<longrightarrow>
      commands_run (fst (run_ocr_for_file w input_file output_folder pages_to_ocr)) =
        [[''ocrmypdf'', ''-l'', ''ell+eng+tur'', ''--redo-ocr'',
          ''--pages'', join_str '','' (map str_nat pages_to_ocr),
          input_file, path_join output_folder (basename input_file)]]) \<and>
   commands_run (fst (run_ocr_on_file w input_file source_dir output_dir languages suffix')) =
     [[''ocrmypdf'', ''-l'', languages, ''--force-ocr'',
       path_join source_dir input_file,
       path_join output_dir (fst (splitext input_file) @ suffix' @ ''.pdf'')]] \<and>
   ''--pages'' \<notin>
     set (force_command input_file SOURCE_DIRECTORY OUTPUT_DIRECTORY LANGUAGES OUTPUT_SUFFIX)"
  by (simp add: run_ocr_for_file_commands run_ocr_on_file_commands redo_command_def
      force_command_def [of input_file source_dir] Let_def no_pages_option_in_force_command)

text \<open>
  The two commands for \<^verbatim>\<open>a.pdf\<close> with the pages 1, 3.
\<close>

theorem ocr_command_lines_witness:
  "[1, 3] \<noteq> ([] :: nat list) \<and>
   commands_run (fst (run_ocr_for_file demo_world ''archive/a.pdf'' ''ocr'' [1, 3])) =
     [[''ocrmypdf'', ''-l'', ''ell+eng+tur'', ''--redo-ocr'', ''--pages'', ''1,3'',
       ''archive/a.pdf'', ''ocr/a.pdf'']] \<and>
   commands_run (fst (run_ocr_on_file demo_world ''a.pdf'' ''archive'' ''ocr'' ''eng+ell+tur'' ''_ocr'')) =
     [[''ocrmypdf'', ''-l'', ''eng+ell+tur'', ''--force-ocr'', ''archive/a.pdf'', ''ocr/a_ocr.pdf'']]"
proof -
  have ne: "[1, 3] \<noteq> ([] :: nat list)" by simp
  have a: "str_nat (Suc 0) = ''1''" "str_nat 3 = ''3''" by code_simp+
  have b: "path_join ''ocr'' (basename ''archive/a.pdf'') = ''ocr/a.pdf''" by code_simp
  have c: "path_join ''archive'' ''a.pdf'' = ''archive/a.pdf''" by code_simp
  have d: "path_join ''ocr'' (fst (splitext ''a.pdf'') @ ''_ocr.pdf'') = ''ocr/a_ocr.pdf''"
    by code_simp
  from ocr_command_lines [of "[1, 3]" demo_world "''archive/a.pdf''" "''ocr''"] ne
  have "commands_run (fst (run_ocr_for_file demo_world ''archive/a.pdf'' ''ocr'' [1, 3])) =
     [[''ocrmypdf'', ''-l'', ''ell+eng+tur'', ''--redo-ocr'', ''--pages'', ''1,3'',
       ''archive/a.pdf'', ''ocr/a.pdf'']]"
    by (simp add: a b)
  moreover from ocr_command_lines [where w = demo_world and input_file = "''a.pdf''"
      and source_dir = "''archive''" and output_dir = "''ocr''" and languages = "''eng+ell+tur''"
      and suffix' = "''_ocr''"]
  have "commands_run (fst (run_ocr_on_file demo_world ''a.pdf'' ''archive'' ''ocr'' ''eng+ell+tur'' ''_ocr'')) =
     [[''ocrmypdf'', ''-l'', ''eng+ell+tur'', ''--force-ocr'', ''archive/a.pdf'', ''ocr/a_ocr.pdf'']]"
    by (simp add: c d)
  ultimately show ?thesis using ne by blast
qed

end
